theory Spec2Isabelle
  imports Main "HOL-Library.Char_ord" "HOL-Library.List_Lexorder" "HOL-Library.Multiset"
begin

section \<open>The cudatoolkit recipe's build script (recipes/cudatoolkit/build.py)\<close>

text \<open>
  The script is sequential Python: it builds an \<open>Extractor\<close> object from a platform name
  and a version string, unpacks the vendor installer with external tools, resolves a fixed
  list of library names against directories of the unpacked tree (\<open>get_paths\<close>), copies or
  links the resolved files into the output directory (\<open>copy_files\<close>) and writes a
  configuration file (\<open>dump_config\<close>).

  Exceptions are values of the type \<open>error\<close>, named after the Python class that is raised.
  A function that only reads returns \<open>error + 'a\<close>; a function that writes takes the
  \<open>world\<close> and returns the result together with the world it leaves behind, so that the
  effects of a run that fails part-way remain visible.
\<close>

subsection \<open>Exceptions\<close>

datatype error =
    ValueError string
  | RuntimeError string
  | AssertionError string
  | NameError string
  | TypeError string
  | KeyError string
  | AttributeError string
  | PermissionError
  | FileNotFoundError
  | FileExistsError
  | NotADirectoryError
  | IsADirectoryError
  | SameFileError
  | OSError string
  | CalledProcessError

subsection \<open>Library functions taken as parameters\<close>

text \<open>
  \<open>str.format\<close>, \<open>fnmatch\<close>, \<open>repr\<close> and \<open>yaml.dump\<close> belong to Python and PyYAML, not to
  the script. The model takes them as the fields of a record, so that every theorem
  about the script holds whatever they compute:
  \<^item> \<open>str_format t a\<close> is \<open>t.format(a)\<close>, which can raise;
  \<^item> \<open>fnmatch n p\<close> is \<open>fnmatch.fnmatch(n, p)\<close>, the test \<open>fnmatch.filter\<close> applies to
    each name;
  \<^item> \<open>repr_str s\<close> is \<open>repr(s)\<close>;
  \<^item> \<open>yaml_dump c\<close> is the text \<open>yaml.dump(c, default_flow_style=False)\<close> writes.
\<close>

datatype pyval = Str string | Lst "pyval list" | Dict "(string \<times> pyval) list" | NoneVal

record stdlib =
  str_format :: "string \<Rightarrow> string \<Rightarrow> error + string"
  fnmatch :: "string \<Rightarrow> string \<Rightarrow> bool"
  repr_str :: "string \<Rightarrow> string"
  yaml_dump :: "(string \<times> pyval) list \<Rightarrow> string"

definition fnmatch_filter :: "stdlib \<Rightarrow> string list \<Rightarrow> string \<Rightarrow> string list" where
  "fnmatch_filter L names pat = filter (\<lambda>n. fnmatch L n pat) names"

subsection \<open>Python builtins the script uses\<close>

text \<open>\<open>s.split('.')\<close>: the pieces between the dots; never the empty list.\<close>

fun split_dot :: "string \<Rightarrow> string list" where
  "split_dot [] = [[]]"
| "split_dot (c # cs) =
     (if c = CHR ''.'' then [] # split_dot cs
      else (case split_dot cs of [] \<Rightarrow> [[c]] | p # ps \<Rightarrow> (c # p) # ps))"

text \<open>\<open>sep.join(xs)\<close>.\<close>

fun str_join :: "string \<Rightarrow> string list \<Rightarrow> string" where
  "str_join sep [] = []"
| "str_join sep [x] = x"
| "str_join sep (x # y # ys) = x @ sep @ str_join sep (y # ys)"

text \<open>
  \<open>max(xs)\<close> on a list of strings: \<open>ValueError\<close> on the empty list, otherwise the greatest
  string in the order of code points, which on \<open>char list\<close> is the lexicographic order
  of \<open>List_Lexorder\<close> over \<open>Char_ord\<close>. The wording of the message is CPython's.
\<close>

definition max_empty_msg :: string where
  "max_empty_msg = ''max() arg is an empty sequence''"

definition py_max :: "string list \<Rightarrow> error + string" where
  "py_max xs = (case xs of [] \<Rightarrow> Inl (ValueError max_empty_msg) | x # rest \<Rightarrow> Inr (foldl max x rest))"

text \<open>\<open>xs.remove(x)\<close>: drops the first occurrence, \<open>ValueError\<close> when there is none.\<close>

definition list_remove :: "string \<Rightarrow> string list \<Rightarrow> error + string list" where
  "list_remove x xs =
     (if x \<in> set xs then Inr (remove1 x xs) else Inl (ValueError ''list.remove(x): x not in list''))"

text \<open>\<open>x in s\<close> on strings: \<open>x\<close> occurs in \<open>s\<close> as a substring.\<close>

fun str_contains :: "string \<Rightarrow> string \<Rightarrow> bool" where
  "str_contains x [] = (x = [])"
| "str_contains x (c # cs) = (x = take (length x) (c # cs) \<or> str_contains x cs)"

subsection \<open>Paths\<close>

text \<open>
  \<open>os.path.join\<close>, \<open>os.path.basename\<close> and \<open>os.path.dirname\<close> are modelled as \<open>posixpath\<close>
  defines them, with \<open>/\<close> as the separator, also where the script would run on Windows.
\<close>

definition path_join :: "string \<Rightarrow> string \<Rightarrow> string" where
  "path_join a b =
     (if b \<noteq> [] \<and> hd b = CHR ''/'' then b
      else if a = [] \<or> last a = CHR ''/'' then a @ b
      else a @ ''/'' @ b)"

definition basename :: "string \<Rightarrow> string" where
  "basename p = rev (takeWhile (\<lambda>c. c \<noteq> CHR ''/'') (rev p))"

definition dirname :: "string \<Rightarrow> string" where
  "dirname p =
     (let head = rev (dropWhile (\<lambda>c. c \<noteq> CHR ''/'') (rev p)) in
      if head \<noteq> [] \<and> \<not> list_all (\<lambda>c. c = CHR ''/'') head
      then rev (dropWhile (\<lambda>c. c = CHR ''/'') (rev head))
      else head)"

subsection \<open>The file system and the environment\<close>

text \<open>
  A path names at most one node: a regular file with its bytes, a symbolic link with its
  target string, or a directory with the names \<open>os.listdir\<close> returns for it, in the order
  it returns them. Paths are told apart by their spelling, and the empty path stands for
  the working directory. A listing that names an entry with no node of its own is a
  directory read while an entry is vanishing.
\<close>

datatype node = File string | Link string | Dir "string list"

type_synonym filesystem = "string \<Rightarrow> node option"

text \<open>
  \<open>denied\<close> holds of the nodes the process may not open, list or add an entry to:
  the operation raises \<open>PermissionError\<close> there.
\<close>

record world =
  fs :: filesystem
  environ :: "string \<Rightarrow> string option"
  denied :: "string \<Rightarrow> bool"

text \<open>
  Following symbolic links: a relative target is read from the directory of the link;
  a chain of more than 40 links is the system's \<open>ELOOP\<close>.
\<close>

fun follow :: "nat \<Rightarrow> filesystem \<Rightarrow> string \<Rightarrow> string option" where
  "follow 0 f p = None"
| "follow (Suc n) f p =
     (case f p of
        Some (Link t) \<Rightarrow> follow n f (path_join (dirname p) t)
      | _ \<Rightarrow> Some p)"

definition stat :: "filesystem \<Rightarrow> string \<Rightarrow> node option" where
  "stat f p = (case follow 40 f p of None \<Rightarrow> None | Some q \<Rightarrow> f q)"

definition isfile :: "world \<Rightarrow> string \<Rightarrow> bool" where
  "isfile w p = (case stat (fs w) p of Some (File b) \<Rightarrow> True | _ \<Rightarrow> False)"

definition isdir :: "world \<Rightarrow> string \<Rightarrow> bool" where
  "isdir w p = (case stat (fs w) p of Some (Dir ns) \<Rightarrow> True | _ \<Rightarrow> False)"

definition islink :: "world \<Rightarrow> string \<Rightarrow> bool" where
  "islink w p = (case fs w p of Some (Link t) \<Rightarrow> True | _ \<Rightarrow> False)"

definition os_listdir :: "world \<Rightarrow> string \<Rightarrow> error + string list" where
  "os_listdir w d =
     (case follow 40 (fs w) d of
        None \<Rightarrow> Inl (OSError ''Too many levels of symbolic links'')
      | Some k \<Rightarrow>
          (case fs w k of
             Some (Dir ns) \<Rightarrow> if denied w k then Inl PermissionError else Inr ns
           | Some _ \<Rightarrow> Inl NotADirectoryError
           | None \<Rightarrow> Inl FileNotFoundError))"

definition os_readlink :: "world \<Rightarrow> string \<Rightarrow> error + string" where
  "os_readlink w p =
     (case fs w p of
        Some (Link t) \<Rightarrow> Inr t
      | Some _ \<Rightarrow> Inl (OSError ''Invalid argument'')
      | None \<Rightarrow> Inl FileNotFoundError)"

subsection \<open>The extractor object\<close>

text \<open>The attributes \<open>Extractor.__init__\<close> sets (lines 133 to 161).\<close>

record extractor =
  version :: string
  major :: string
  minor :: string
  micro :: "string option"
  cuda_libraries :: "string list"
  cuda_static_libraries :: "string list"
  libdevice_versions :: "string list"
  config_blob :: string
  embedded_blob :: "string option"
  cuda_lib_fmt :: string
  cuda_static_lib_fmt :: string
  nvtoolsext_fmt :: "string option"
  nvvm_lib_fmt :: string
  libdevice_lib_fmt :: string
  patches :: "string list"
  nvtoolsextpath :: "string option"
  config :: "(string \<times> pyval) list"
  prefix :: string
  src_dir :: string
  output_dir :: string
  symlinks :: bool
  debug_install_path :: "string option"

subsection \<open>\<open>Extractor.get_paths\<close> (lines 178 to 212)\<close>

definition cannot_find_msg :: "string \<Rightarrow> string \<Rightarrow> string" where
  "cannot_find_msg libname filename =
     ''Cannot find item: '' @ libname @ '', looked for '' @ filename"

definition aliasing_msg :: "string \<Rightarrow> string \<Rightarrow> string list \<Rightarrow> string" where
  "aliasing_msg libname filename paths =
     ''Aliasing present for item: '' @ libname @ '', looked for '' @ filename
       @ ''. Found: '' @ [CHR 0x0A] @ str_join ('', '' @ [CHR 0x0A]) paths"

text \<open>
  Lines 195 to 199: every match is joined to the directory and asserted to be a file;
  the first one that is not raises \<open>AssertionError\<close>.
\<close>

fun check_paths :: "world \<Rightarrow> string \<Rightarrow> string list \<Rightarrow> error + string list" where
  "check_paths w dirpath [] = Inr []"
| "check_paths w dirpath (path # rest) =
     (let tmppath = path_join dirpath path in
      if isfile w tmppath
      then (case check_paths w dirpath rest of
              Inl e \<Rightarrow> Inl e
            | Inr ps \<Rightarrow> Inr (tmppath # ps))
      else Inl (AssertionError (''missing '' @ tmppath)))"

text \<open>Line 210: \<open>[pathsforlib.remove(x) for x in concrete_dsos]\<close>.\<close>

fun remove_each :: "string list \<Rightarrow> string list \<Rightarrow> error + string list" where
  "remove_each [] pathsforlib = Inr pathsforlib"
| "remove_each (x # xs) pathsforlib =
     (case list_remove x pathsforlib of
        Inl e \<Rightarrow> Inl e
      | Inr ps \<Rightarrow> remove_each xs ps)"

text \<open>Lines 200 to 210: the branch taken when \<open>self.symlinks\<close> is set.\<close>

definition drop_unwanted :: "world \<Rightarrow> string list \<Rightarrow> error + string list" where
  "drop_unwanted w pathsforlib =
     (let concrete_dsos = filter (\<lambda>x. \<not> islink w x) pathsforlib in
      case py_max concrete_dsos of
        Inl e \<Rightarrow> Inl e
      | Inr target_library \<Rightarrow>
          (case list_remove target_library concrete_dsos of
             Inl e \<Rightarrow> Inl e
           | Inr unwanted \<Rightarrow> remove_each unwanted pathsforlib))"

text \<open>The body of the loop over \<open>libraries\<close> (lines 183 to 210), for one \<open>libname\<close>.\<close>

definition paths_for_lib ::
  "stdlib \<Rightarrow> extractor \<Rightarrow> world \<Rightarrow> string \<Rightarrow> string \<Rightarrow> string \<Rightarrow> error + string list" where
  "paths_for_lib L self w dirpath template libname =
     (case str_format L template libname of
        Inl e \<Rightarrow> Inl e
      | Inr filename \<Rightarrow>
          (case os_listdir w dirpath of
             Inl e \<Rightarrow> Inl e
           | Inr names \<Rightarrow>
               (let paths = fnmatch_filter L names filename in
                if paths = [] then Inl (RuntimeError (cannot_find_msg libname filename))
                else if \<not> symlinks self \<and> length paths \<noteq> 1
                then Inl (RuntimeError (aliasing_msg libname filename paths))
                else (case check_paths w dirpath paths of
                        Inl e \<Rightarrow> Inl e
                      | Inr pathsforlib \<Rightarrow>
                          if symlinks self then drop_unwanted w pathsforlib
                          else Inr pathsforlib))))"

text \<open>The loop itself: \<open>pathlist\<close> is extended name by name, and the first error ends it.\<close>

fun get_paths_loop ::
  "stdlib \<Rightarrow> extractor \<Rightarrow> world \<Rightarrow> string \<Rightarrow> string \<Rightarrow> string list \<Rightarrow> string list
     \<Rightarrow> error + string list" where
  "get_paths_loop L self w dirpath template [] pathlist = Inr pathlist"
| "get_paths_loop L self w dirpath template (libname # rest) pathlist =
     (case paths_for_lib L self w dirpath template libname of
        Inl e \<Rightarrow> Inl e
      | Inr pathsforlib \<Rightarrow> get_paths_loop L self w dirpath template rest (pathlist @ pathsforlib))"

definition get_paths ::
  "stdlib \<Rightarrow> extractor \<Rightarrow> world \<Rightarrow> string list \<Rightarrow> string \<Rightarrow> string \<Rightarrow> error + string list" where
  "get_paths L self w libraries dirpath template =
     get_paths_loop L self w dirpath template libraries []"

subsection \<open>Writing to the file system\<close>

text \<open>
  The directory that holds a new entry is found by following links from \<open>dirname\<close> of
  the new path; the entry's name is appended to its listing.
\<close>

definition lookup_dir :: "world \<Rightarrow> string \<Rightarrow> error + (string \<times> string list)" where
  "lookup_dir w d =
     (case follow 40 (fs w) d of
        None \<Rightarrow> Inl (OSError ''Too many levels of symbolic links'')
      | Some k \<Rightarrow>
          (case fs w k of
             Some (Dir ns) \<Rightarrow> if denied w k then Inl PermissionError else Inr (k, ns)
           | Some _ \<Rightarrow> Inl NotADirectoryError
           | None \<Rightarrow> Inl FileNotFoundError))"

definition create :: "string \<Rightarrow> node \<Rightarrow> world \<Rightarrow> (error + unit) \<times> world" where
  "create p n w =
     (case lookup_dir w (dirname p) of
        Inl e \<Rightarrow> (Inl e, w)
      | Inr (k, ns) \<Rightarrow> (Inr (), w\<lparr>fs := (fs w)(k \<mapsto> Dir (ns @ [basename p]), p \<mapsto> n)\<rparr>))"

text \<open>\<open>os.symlink(target, p)\<close> and \<open>os.mkdir(p)\<close>: both refuse a path that exists.\<close>

definition os_symlink :: "string \<Rightarrow> string \<Rightarrow> world \<Rightarrow> (error + unit) \<times> world" where
  "os_symlink target p w =
     (if fs w p \<noteq> None then (Inl FileExistsError, w) else create p (Link target) w)"

definition os_mkdir :: "string \<Rightarrow> world \<Rightarrow> (error + unit) \<times> world" where
  "os_mkdir p w =
     (if fs w p \<noteq> None then (Inl FileExistsError, w) else create p (Dir []) w)"

text \<open>
  Opening \<open>p\<close> for writing and writing \<open>b\<close>: links are followed, an existing regular file
  is replaced, a missing one is created.
\<close>

definition write_file :: "string \<Rightarrow> string \<Rightarrow> world \<Rightarrow> (error + unit) \<times> world" where
  "write_file p b w =
     (case follow 40 (fs w) p of
        None \<Rightarrow> (Inl (OSError ''Too many levels of symbolic links''), w)
      | Some q \<Rightarrow>
          (case fs w q of
             Some (Dir ns) \<Rightarrow> (Inl IsADirectoryError, w)
           | Some (Link t) \<Rightarrow> (Inl (OSError ''Too many levels of symbolic links''), w)
           | Some (File old) \<Rightarrow>
               if denied w q then (Inl PermissionError, w)
               else (Inr (), w\<lparr>fs := (fs w)(q \<mapsto> File b)\<rparr>)
           | None \<Rightarrow> create q (File b) w))"

text \<open>
  \<open>shutil.copy(src, dst)\<close>: into \<open>dst\<close> under the name of \<open>src\<close> when \<open>dst\<close> is a directory;
  refuses to copy a file onto itself; reads \<open>src\<close> and writes the bytes, both through
  links; returns the path written. Permission bits are not modelled.
\<close>

definition shutil_copy :: "string \<Rightarrow> string \<Rightarrow> world \<Rightarrow> (error + string) \<times> world" where
  "shutil_copy src dst w =
     (let d = (if isdir w dst then path_join dst (basename src) else dst) in
      if stat (fs w) src \<noteq> None \<and> follow 40 (fs w) src = follow 40 (fs w) d
      then (Inl SameFileError, w)
      else (case follow 40 (fs w) src of
              None \<Rightarrow> (Inl (OSError ''Too many levels of symbolic links''), w)
            | Some q \<Rightarrow>
                (case fs w q of
                   None \<Rightarrow> (Inl FileNotFoundError, w)
                 | Some (Dir ns) \<Rightarrow> (Inl IsADirectoryError, w)
                 | Some (Link t) \<Rightarrow> (Inl (OSError ''Too many levels of symbolic links''), w)
                 | Some (File b) \<Rightarrow>
                     if denied w q then (Inl PermissionError, w)
                     else (case write_file d b w of
                             (Inl e, w') \<Rightarrow> (Inl e, w')
                           | (Inr u, w') \<Rightarrow> (Inr d, w')))))"

subsection \<open>The configuration table (lines 39 to 103)\<close>

definition startswith :: "string \<Rightarrow> string \<Rightarrow> bool" where
  "startswith s p = (take (length p) s = p)"

text \<open>The module-level dictionary \<open>CONFIG\<close>, as the import builds it on \<open>sys.platform\<close>.\<close>

definition CONFIG :: "string \<Rightarrow> (string \<times> pyval) list" where
  "CONFIG sys_platform =
     [(''cuda_libraries'', Lst (map Str
         ([''cublas'', ''cublasLt'', ''cudart'', ''cufft'', ''cufftw'', ''curand'',
           ''cusolver'', ''cusolverMg'', ''cusparse'', ''nppc'', ''nppial'', ''nppicc'',
           ''nppidei'', ''nppif'', ''nppig'', ''nppim'', ''nppist'', ''nppisu'', ''nppitc'',
           ''npps'', ''nvToolsExt'', ''nvblas'', ''nvjpeg'', ''nvrtc'', ''nvrtc-builtins'']
          @ (if startswith sys_platform ''linux'' then [''accinj64'', ''cuinj64''] else [])
          @ (if startswith sys_platform ''windows'' then [''cuinj''] else [])))),
      (''cuda_static_libraries'', Lst [Str ''cudadevrt'']),
      (''linux'', Dict
         [(''blob'', Str ''cuda_11.0.3_450.51.06_linux.run''),
          (''ppc64le_blob'', Str ''cuda_11.0.3_450.51.06_linux_ppc64le.run''),
          (''embedded_blob'', NoneVal),
          (''ppc64le_embedded_blob'', NoneVal),
          (''patches'', Lst []),
          (''cuda_lib_fmt'', Str ''lib{0}.so*''),
          (''cuda_static_lib_fmt'', Str ''lib{0}.a''),
          (''nvtoolsext_fmt'', Str ''lib{0}.so*''),
          (''nvvm_lib_fmt'', Str ''lib{0}.so*''),
          (''libdevice_lib_fmt'', Str ''libdevice.10.bc'')]),
      (''windows'', Dict
         [(''blob'', Str ''cuda_11.0.3_451.82_win10.exe''),
          (''patches'', Lst []),
          (''cuda_lib_fmt'', Str ''{0}64_1*.dll''),
          (''cuda_static_lib_fmt'', Str ''{0}.lib''),
          (''nvtoolsext_fmt'', Str ''{0}64_1.dll''),
          (''nvvm_lib_fmt'', Str ''{0}64_33_0.dll''),
          (''libdevice_lib_fmt'', Str ''libdevice.10.bc''),
          (''NvToolsExtPath'', Str
             (path_join (path_join (path_join (path_join (''c:'' @ ''/'') ''Program Files'')
                ''NVIDIA Corporation'') ''NVToolsExt'') ''bin''))])]"

text \<open>\<open>d[k]\<close> on a dictionary (\<open>KeyError\<close> on a missing key) and on anything else.\<close>

definition subscript :: "pyval \<Rightarrow> string \<Rightarrow> error + pyval" where
  "subscript d k =
     (case d of
        Dict kv \<Rightarrow> (case map_of kv k of None \<Rightarrow> Inl (KeyError k) | Some v \<Rightarrow> Inr v)
      | Lst xs \<Rightarrow> Inl (TypeError ''list indices must be integers or slices, not str'')
      | Str s \<Rightarrow> Inl (TypeError ''string indices must be integers'')
      | NoneVal \<Rightarrow> Inl (TypeError (''object is not subscriptable'')))"

fun subscripts :: "pyval \<Rightarrow> string list \<Rightarrow> error + unit" where
  "subscripts d [] = Inr ()"
| "subscripts d (k # ks) = (case subscript d k of Inl e \<Rightarrow> Inl e | Inr v \<Rightarrow> subscripts d ks)"

subsection \<open>\<open>Extractor.__init__\<close> (lines 114 to 164)\<close>

text \<open>
  Line 137 of the file reads \<open>elif len(version_parts) > 2::\<close>; the model reads the doubled
  colon as one. Lines 133 to 140 split the version string and raise \<open>ValueError\<close> when it
  has fewer than two parts; there is no test that a part is numeric, and parts after the
  third are dropped. Line 141 looks the platform up in \<open>CONFIG\<close>, and lines 147 to 155
  read the platform's entries, of which \<open>blob\<close>, \<open>cuda_lib_fmt\<close>, \<open>cuda_static_lib_fmt\<close>,
  \<open>nvvm_lib_fmt\<close>, \<open>libdevice_lib_fmt\<close> and \<open>patches\<close> are subscripts. Line 156 then
  evaluates the name \<open>ver_config\<close>, which neither the method nor the module defines, and
  raises \<open>NameError\<close>: lines 157 to 164 (the environment reads and \<open>os.makedirs\<close>) are
  never reached, and no constructor call returns an object. A version of \<open>None\<close> (the
  command line without \<open>--version\<close>) has no \<open>split\<close>.
\<close>

definition version_parts_of :: "stdlib \<Rightarrow> string \<Rightarrow> error + (string \<times> string \<times> string option)" where
  "version_parts_of L v =
     (let version_parts = split_dot v in
      if length version_parts = 2
      then Inr (version_parts ! 0, version_parts ! 1, None)
      else if length version_parts > 2
      then Inr (version_parts ! 0, version_parts ! 1, Some (version_parts ! 2))
      else Inl (ValueError (repr_str L v @ '' not a valid version string'')))"

definition Extractor_init ::
  "stdlib \<Rightarrow> string \<Rightarrow> string \<Rightarrow> string option \<Rightarrow> world \<Rightarrow> (error + extractor) \<times> world" where
  "Extractor_init L sys_platform platform ver w =
     (case ver of
        None \<Rightarrow> (Inl (AttributeError ''split''), w)
      | Some v \<Rightarrow>
          (case version_parts_of L v of
             Inl e \<Rightarrow> (Inl e, w)
           | Inr (major', minor', micro') \<Rightarrow>
               (case map_of (CONFIG sys_platform) platform of
                  None \<Rightarrow> (Inl (KeyError platform), w)
                | Some plt_config \<Rightarrow>
                    (case subscripts plt_config
                            [''blob'', ''cuda_lib_fmt'', ''cuda_static_lib_fmt'',
                             ''nvvm_lib_fmt'', ''libdevice_lib_fmt'', ''patches''] of
                       Inl e \<Rightarrow> (Inl e, w)
                     | Inr u \<Rightarrow> (Inl (NameError ''ver_config''), w)))))"

subsection \<open>\<open>Extractor.copy_files\<close> (lines 214 to 241)\<close>

text \<open>The loop of lines 231 to 241 over the resolved paths. The \<open>print\<close> calls are left out.\<close>

fun copy_loop :: "extractor \<Rightarrow> string list \<Rightarrow> world \<Rightarrow> (error + unit) \<times> world" where
  "copy_loop self [] w = (Inr (), w)"
| "copy_loop self (fn # rest) w =
     (if islink w fn
      then (case os_readlink w fn of
              Inl e \<Rightarrow> (Inl e, w)
            | Inr symlinktarget \<Rightarrow>
                (let targetname = basename fn;
                     symlink = path_join (output_dir self) targetname
                 in case os_symlink symlinktarget symlink w of
                      (Inl e, w') \<Rightarrow> (Inl e, w')
                    | (Inr u, w') \<Rightarrow> copy_loop self rest w'))
      else (case shutil_copy fn (output_dir self) w of
              (Inl e, w') \<Rightarrow> (Inl e, w')
            | (Inr d, w') \<Rightarrow> copy_loop self rest w'))"

text \<open>
  Lines 217 to 229 collect the paths with five calls of \<open>get_paths\<close>; the second is made
  only when \<open>nvToolsExt\<close> is among the libraries, with \<open>self.nvtoolsext_fmt\<close>, which is
  \<open>None\<close> when the platform has no such entry.
\<close>

definition copy_files ::
  "stdlib \<Rightarrow> extractor \<Rightarrow> string \<Rightarrow> string \<Rightarrow> string \<Rightarrow> world \<Rightarrow> (error + unit) \<times> world" where
  "copy_files L self cuda_lib_dir nvvm_lib_dir libdevice_lib_dir w =
     (let cudalibs = filter (\<lambda>x. x \<noteq> ''nvToolsExt'') (cuda_libraries self) in
      case get_paths L self w cudalibs cuda_lib_dir (cuda_lib_fmt self) of
        Inl e \<Rightarrow> (Inl e, w)
      | Inr p1 \<Rightarrow>
      (case (if ''nvToolsExt'' \<in> set (cuda_libraries self)
             then (case nvtoolsext_fmt self of
                     None \<Rightarrow> Inl (AttributeError ''format'')
                   | Some t \<Rightarrow> get_paths L self w [''nvToolsExt''] cuda_lib_dir t)
             else Inr []) of
        Inl e \<Rightarrow> (Inl e, w)
      | Inr p2 \<Rightarrow>
      (case get_paths L self w (cuda_static_libraries self) cuda_lib_dir
              (cuda_static_lib_fmt self) of
        Inl e \<Rightarrow> (Inl e, w)
      | Inr p3 \<Rightarrow>
      (case get_paths L self w [''nvvm''] nvvm_lib_dir (nvvm_lib_fmt self) of
        Inl e \<Rightarrow> (Inl e, w)
      | Inr p4 \<Rightarrow>
      (case get_paths L self w (libdevice_versions self) libdevice_lib_dir
              (libdevice_lib_fmt self) of
        Inl e \<Rightarrow> (Inl e, w)
      | Inr p5 \<Rightarrow> copy_loop self (p1 @ p2 @ p3 @ p4 @ p5) w)))))"

subsection \<open>\<open>Extractor.dump_config\<close> (lines 243 to 248)\<close>

definition dump_config :: "stdlib \<Rightarrow> extractor \<Rightarrow> world \<Rightarrow> (error + unit) \<times> world" where
  "dump_config L self w =
     (let dumpfile = path_join (output_dir self) ''cudatoolkit_config.yaml''
      in write_file dumpfile (yaml_dump L (config self)) w)"

subsection \<open>\<open>WindowsExtractor\<close> (lines 251 to 322)\<close>

text \<open>
  What the script asks of the system and cannot compute itself is a parameter:
  \<open>mkdtemp\<close> and \<open>cleanup\<close> are the two ends of \<open>TemporaryDirectory\<close>, \<open>check_call\<close> runs an
  external command and raises when it cannot be run or exits non-zero, and \<open>os_walk top\<close>
  is the sequence of triples \<open>(path, dirs, files)\<close> that \<open>os.walk(top)\<close> yields.
\<close>

record sys =
  mkdtemp :: "world \<Rightarrow> (error + string) \<times> world"
  cleanup :: "string \<Rightarrow> world \<Rightarrow> (error + unit) \<times> world"
  check_call :: "string list \<Rightarrow> world \<Rightarrow> (error + unit) \<times> world"
  os_walk :: "string \<Rightarrow> world \<Rightarrow> (string \<times> string list \<times> string list) list"

text \<open>Sequencing: the second step runs in the world the first leaves, unless it raised.\<close>

definition seq ::
  "(world \<Rightarrow> (error + 'a) \<times> world) \<Rightarrow> ('a \<Rightarrow> world \<Rightarrow> (error + 'b) \<times> world)
     \<Rightarrow> world \<Rightarrow> (error + 'b) \<times> world" where
  "seq m k w = (case m w of (Inl e, w') \<Rightarrow> (Inl e, w') | (Inr x, w') \<Rightarrow> k x w')"

text \<open>
  \<open>with tempdir() as tmpd: body\<close>. The directory is removed when the body ends, also when
  it raised; an exception of the removal replaces the body's.
\<close>

definition with_tempdir ::
  "sys \<Rightarrow> (string \<Rightarrow> world \<Rightarrow> (error + unit) \<times> world) \<Rightarrow> world \<Rightarrow> (error + unit) \<times> world" where
  "with_tempdir S body w =
     (case mkdtemp S w of
        (Inl e, w1) \<Rightarrow> (Inl e, w1)
      | (Inr tmpd, w1) \<Rightarrow>
          (case body tmpd w1 of
             (r, w2) \<Rightarrow>
               (case cleanup S tmpd w2 of
                  (Inl e, w3) \<Rightarrow> (Inl e, w3)
                | (Inr u, w3) \<Rightarrow> (r, w3))))"

definition WindowsExtractor_copy ::
  "stdlib \<Rightarrow> extractor \<Rightarrow> string \<Rightarrow> world \<Rightarrow> (error + unit) \<times> world" where
  "WindowsExtractor_copy L self store w = copy_files L self store store store w"

text \<open>Lines 267 to 275: the directory for the archive, the installer, then each patch in turn.\<close>

fun unpack_patches ::
  "sys \<Rightarrow> extractor \<Rightarrow> string \<Rightarrow> string list \<Rightarrow> world \<Rightarrow> (error + unit) \<times> world" where
  "unpack_patches S self extractdir [] w = (Inr (), w)"
| "unpack_patches S self extractdir (p # ps) w =
     (case check_call S [''7za'', ''x'', ''-aoa'', ''-o'' @ extractdir, path_join (src_dir self) p] w of
        (Inl e, w') \<Rightarrow> (Inl e, w')
      | (Inr u, w') \<Rightarrow> unpack_patches S self extractdir ps w')"

definition unpack :: "sys \<Rightarrow> extractor \<Rightarrow> string \<Rightarrow> world \<Rightarrow> (error + unit) \<times> world" where
  "unpack S self tmpd =
     (let runfile = config_blob self;
          extract_name = ''__extracted'';
          extractdir = path_join tmpd extract_name
      in seq (os_mkdir extract_name) (\<lambda>u.
         seq (check_call S [''7za'', ''x'', ''-o'' @ extractdir, path_join (src_dir self) runfile]) (\<lambda>u.
         unpack_patches S self extractdir (patches self))))"

text \<open>Lines 277 to 283: the NvToolsExt path, from the environment first.\<close>

definition nvt_path_of :: "extractor \<Rightarrow> world \<Rightarrow> string option" where
  "nvt_path_of self w =
     (case environ w ''NVTOOLSEXT_INSTALL_PATH'' of
        Some v \<Rightarrow> Some v
      | None \<Rightarrow> nvtoolsextpath self)"

definition nvt_invalid_msg :: string where
  "nvt_invalid_msg = ''NVTOOLSEXT_INSTALL_PATH is invalid or inaccessible.''"

definition check_nvt_path :: "string option \<Rightarrow> world \<Rightarrow> (error + unit) \<times> world" where
  "check_nvt_path nvt_path w =
     (case nvt_path of
        None \<Rightarrow> (Inr (), w)
      | Some p \<Rightarrow> if \<not> isdir w p then (Inl (ValueError nvt_invalid_msg), w) else (Inr (), w))"

text \<open>
  One inner loop of lines 291 to 308 and 311 to 316: each name of the directory that
  matched the pattern is copied into \<open>store\<close> unless \<open>store\<close> has a file of that name.
\<close>

fun copy_new :: "string \<Rightarrow> string \<Rightarrow> string list \<Rightarrow> world \<Rightarrow> (error + unit) \<times> world" where
  "copy_new store path [] w = (Inr (), w)"
| "copy_new store path (filename # rest) w =
     (if \<not> isfile w (path_join store filename)
      then (case shutil_copy (path_join path filename) store w of
              (Inl e, w') \<Rightarrow> (Inl e, w')
            | (Inr d, w') \<Rightarrow> copy_new store path rest w')
      else copy_new store path rest w)"

text \<open>Lines 289 to 308: the walk over the unpacked tree.\<close>

definition flatten_dir ::
  "stdlib \<Rightarrow> string \<Rightarrow> string \<times> string list \<times> string list \<Rightarrow> world \<Rightarrow> (error + unit) \<times> world" where
  "flatten_dir L store t =
     (case t of (path, dirs, files) \<Rightarrow>
        if \<not> str_contains ''jre'' path \<and> \<not> str_contains ''GFExperience'' path
        then seq (copy_new store path (fnmatch_filter L files ''*.dll'')) (\<lambda>u.
             seq (copy_new store path (fnmatch_filter L files ''*.lib'')) (\<lambda>u.
             copy_new store path (fnmatch_filter L files ''*.bc'')))
        else (\<lambda>w. (Inr (), w)))"

fun flatten ::
  "stdlib \<Rightarrow> string \<Rightarrow> (string \<times> string list \<times> string list) list \<Rightarrow> world
     \<Rightarrow> (error + unit) \<times> world" where
  "flatten L store [] w = (Inr (), w)"
| "flatten L store (t # ts) w =
     (case flatten_dir L store t w of
        (Inl e, w') \<Rightarrow> (Inl e, w')
      | (Inr u, w') \<Rightarrow> flatten L store ts w')"

text \<open>Lines 309 to 316: the walk over the NvToolsExt directory, when there is one.\<close>

fun merge_walk ::
  "stdlib \<Rightarrow> string \<Rightarrow> (string \<times> string list \<times> string list) list \<Rightarrow> world
     \<Rightarrow> (error + unit) \<times> world" where
  "merge_walk L store [] w = (Inr (), w)"
| "merge_walk L store ((path, dirs, files) # ts) w =
     (case copy_new store path (fnmatch_filter L files ''*.dll'') w of
        (Inl e, w') \<Rightarrow> (Inl e, w')
      | (Inr u, w') \<Rightarrow> merge_walk L store ts w')"

definition merge_nvtoolsext ::
  "stdlib \<Rightarrow> sys \<Rightarrow> string \<Rightarrow> string option \<Rightarrow> world \<Rightarrow> (error + unit) \<times> world" where
  "merge_nvtoolsext L S store nvt_path w =
     (case nvt_path of
        None \<Rightarrow> (Inr (), w)
      | Some p \<Rightarrow> merge_walk L store (os_walk S p w) w)"

text \<open>The body of the \<open>with\<close> statement (lines 267 to 317).\<close>

definition extract_block ::
  "stdlib \<Rightarrow> sys \<Rightarrow> extractor \<Rightarrow> string \<Rightarrow> world \<Rightarrow> (error + unit) \<times> world" where
  "extract_block L S self tmpd =
     seq (unpack S self tmpd) (\<lambda>u w.
       (let extractdir = path_join tmpd ''__extracted'';
            nvt_path = nvt_path_of self w;
            store_name = ''DLLs'';
            store = path_join tmpd store_name
        in seq (check_nvt_path nvt_path) (\<lambda>u.
           seq (os_mkdir store) (\<lambda>u.
           seq (\<lambda>w. flatten L store (os_walk S extractdir w) w) (\<lambda>u.
           seq (merge_nvtoolsext L S store nvt_path) (\<lambda>u.
           WindowsExtractor_copy L self store))))) w)"

text \<open>Lines 265 to 322: \<open>try\<close> around the \<open>with\<close> statement, \<open>except PermissionError: pass\<close>.\<close>

definition WindowsExtractor_extract ::
  "stdlib \<Rightarrow> sys \<Rightarrow> extractor \<Rightarrow> world \<Rightarrow> (error + unit) \<times> world" where
  "WindowsExtractor_extract L S self w =
     (case with_tempdir S (extract_block L S self) w of
        (Inl PermissionError, w') \<Rightarrow> (Inr (), w')
      | r \<Rightarrow> r)"

subsection \<open>\<open>getplatform\<close> and \<open>main\<close> (lines 382 to 413)\<close>

definition getplatform :: "string \<Rightarrow> error + string" where
  "getplatform plt =
     (if startswith plt ''linux'' then Inr ''linux''
      else if startswith plt ''win'' then Inr ''windows''
      else Inl (RuntimeError ''Unknown platform''))"

text \<open>
  \<open>main\<close> calls \<open>DISPATCHER[plat](plat, ns.version)\<close>. On Linux that is
  \<open>LinuxExtractor.__init__\<close>, whose parameters are \<open>version\<close>, \<open>ver_config\<close> and
  \<open>plt_config\<close>: the call passes two of the three and raises \<open>TypeError\<close> before the body
  runs. On Windows the class inherits \<open>Extractor.__init__\<close>.
\<close>

definition main ::
  "stdlib \<Rightarrow> sys \<Rightarrow> string \<Rightarrow> string option \<Rightarrow> world \<Rightarrow> (error + unit) \<times> world" where
  "main L S sys_platform ns_version w =
     (case getplatform sys_platform of
        Inl e \<Rightarrow> (Inl e, w)
      | Inr plat \<Rightarrow>
          if plat = ''linux''
          then (Inl (TypeError ''__init__() missing 1 required positional argument''), w)
          else seq (Extractor_init L sys_platform plat ns_version) (\<lambda>extractor.
               seq (WindowsExtractor_extract L S extractor) (\<lambda>u.
               dump_config L extractor)) w)"

subsection \<open>Notions used to state what the copies leave behind\<close>

text \<open>
  A plain name is a name as a directory lists it: not empty and without a separator.
  A directory path as the script builds one (\<open>os.path.join\<close> of a directory and a name)
  is not empty and does not end in a separator.
\<close>

definition plain :: "string \<Rightarrow> bool" where
  "plain f = (f \<noteq> [] \<and> CHR ''/'' \<notin> set f)"

definition no_trailing_slash :: "string \<Rightarrow> bool" where
  "no_trailing_slash d = (d \<noteq> [] \<and> last d \<noteq> CHR ''/'')"

text \<open>
  The copies of lines 291 to 316 as one loop over the pairs \<open>(path, filename)\<close>, in the
  order in which the nested loops reach them; \<open>flatten\<close> and \<open>merge_walk\<close> are proved equal
  to it below.
\<close>

fun copy_pairs :: "string \<Rightarrow> (string \<times> string) list \<Rightarrow> world \<Rightarrow> (error + unit) \<times> world" where
  "copy_pairs store [] w = (Inr (), w)"
| "copy_pairs store ((path, filename) # rest) w =
     (if \<not> isfile w (path_join store filename)
      then (case shutil_copy (path_join path filename) store w of
              (Inl e, w') \<Rightarrow> (Inl e, w')
            | (Inr d, w') \<Rightarrow> copy_pairs store rest w')
      else copy_pairs store rest w)"

text \<open>
  A staging directory in good order: it is a directory, every plain name in it is free or
  a regular file, and nothing is denied. The sources of a list of copies in good order:
  each is a regular file under a plain name, outside the staging directory.
  \<open>first_source occ g\<close> is the directory of the first pair of \<open>occ\<close> whose name is \<open>g\<close>.
\<close>

definition staging_ok :: "string \<Rightarrow> world \<Rightarrow> bool" where
  "staging_ok store w =
     (no_trailing_slash store \<and> (\<exists>ns. fs w store = Some (Dir ns)) \<and>
      (\<forall>g. plain g \<longrightarrow> (case fs w (path_join store g) of
                             None \<Rightarrow> True | Some (File c) \<Rightarrow> True | Some _ \<Rightarrow> False)) \<and>
      (\<forall>p. \<not> denied w p))"

definition sources_ok :: "string \<Rightarrow> (string \<times> string) list \<Rightarrow> world \<Rightarrow> bool" where
  "sources_ok store occ w =
     (\<forall>(p, f) \<in> set occ.
        plain f \<and> (\<exists>b. fs w (path_join p f) = Some (File b)) \<and>
        path_join p f \<noteq> store \<and> (\<forall>g. plain g \<longrightarrow> path_join p f \<noteq> path_join store g))"

definition first_source :: "(string \<times> string) list \<Rightarrow> string \<Rightarrow> string option" where
  "first_source occ g = map_of (map (\<lambda>(p, f). (f, p)) occ) g"

text \<open>
  The pairs \<open>(path, filename)\<close> in the order in which lines 289 to 308 and lines 310
  to 316 reach them.
\<close>

definition flatten_dir_order ::
  "stdlib \<Rightarrow> string \<times> string list \<times> string list \<Rightarrow> (string \<times> string) list" where
  "flatten_dir_order L t =
     (case t of (path, dirs, files) \<Rightarrow>
        if \<not> str_contains ''jre'' path \<and> \<not> str_contains ''GFExperience'' path
        then map (Pair path)
               (fnmatch_filter L files ''*.dll'' @ fnmatch_filter L files ''*.lib''
                  @ fnmatch_filter L files ''*.bc'')
        else [])"

definition flatten_order ::
  "stdlib \<Rightarrow> (string \<times> string list \<times> string list) list \<Rightarrow> (string \<times> string) list" where
  "flatten_order L walk = concat (map (flatten_dir_order L) walk)"

definition merge_order ::
  "stdlib \<Rightarrow> (string \<times> string list \<times> string list) list \<Rightarrow> (string \<times> string) list" where
  "merge_order L walk =
     concat (map (\<lambda>(path, dirs, files). map (Pair path) (fnmatch_filter L files ''*.dll'')) walk)"

text \<open>
  Where the loop of lines 231 to 241 puts a resolved path, and resolved paths in good
  order: each has a plain name and lies outside the output directory; a symbolic link
  finds its name free there (\<open>os.symlink\<close> refuses a name that exists), a regular file
  finds it free or held by a regular file.
\<close>

definition dest_of :: "extractor \<Rightarrow> string \<Rightarrow> string" where
  "dest_of self fn = path_join (output_dir self) (basename fn)"

definition copy_sources_ok :: "extractor \<Rightarrow> string list \<Rightarrow> world \<Rightarrow> bool" where
  "copy_sources_ok self filepaths w =
     (\<forall>fn \<in> set filepaths.
        plain (basename fn) \<and> fn \<noteq> output_dir self \<and>
        (\<forall>g. plain g \<longrightarrow> fn \<noteq> path_join (output_dir self) g) \<and>
        (case fs w fn of
           Some (Link t) \<Rightarrow> fs w (dest_of self fn) = None
         | Some (File b) \<Rightarrow>
             (case fs w (dest_of self fn) of
                None \<Rightarrow> True | Some (File c) \<Rightarrow> True | Some _ \<Rightarrow> False)
         | _ \<Rightarrow> False))"

subsection \<open>An instance of the library functions, and small worlds to run the script on\<close>

text \<open>
  \<open>format0\<close> replaces every \<open>{0}\<close> of a template by the argument, which is what
  \<open>str.format\<close> does on the templates of \<open>CONFIG\<close>; \<open>glob\<close> matches a name against a
  pattern of literal characters, \<open>?\<close> and \<open>*\<close>, which is what \<open>fnmatch\<close> does on the
  patterns the script builds from them. The theorems below do not depend on this
  instance; it is used to evaluate the script on concrete inputs.
\<close>

fun format0 :: "string \<Rightarrow> string \<Rightarrow> string" where
  "format0 [] a = []"
| "format0 (c # cs) a =
     (if c = CHR ''{'' \<and> take 2 cs = ''0}'' then a @ format0 (drop 2 cs) a
      else c # format0 cs a)"

fun glob :: "string \<Rightarrow> string \<Rightarrow> bool" where
  "glob [] s = (s = [])"
| "glob (c # p) s =
     (if c = CHR ''*''
      then (glob p s \<or> (case s of [] \<Rightarrow> False | d # s' \<Rightarrow> glob (c # p) s'))
      else (case s of [] \<Rightarrow> False | d # s' \<Rightarrow> (c = CHR ''?'' \<or> c = d) \<and> glob p s'))"

definition example_stdlib :: stdlib where
  "example_stdlib =
     \<lparr>str_format = (\<lambda>t a. Inr (format0 t a)),
      fnmatch = (\<lambda>n p. glob p n),
      repr_str = (\<lambda>s. [CHR 0x27] @ s @ [CHR 0x27]),
      yaml_dump = (\<lambda>c. concat (map (\<lambda>(k, v). k @ '': '' @ (case v of Str s \<Rightarrow> s | _ \<Rightarrow> []) @ [CHR 0x0A]) c))\<rparr>"

definition example_self :: "bool \<Rightarrow> extractor" where
  "example_self b =
     \<lparr>version = ''11.0.3'', major = ''11'', minor = ''0'', micro = Some ''3'',
      cuda_libraries = [''foo''], cuda_static_libraries = [],
      libdevice_versions = [''11''], config_blob = ''blob'', embedded_blob = None,
      cuda_lib_fmt = ''lib{0}.so*'', cuda_static_lib_fmt = ''lib{0}.a'',
      nvtoolsext_fmt = Some ''lib{0}.so*'', nvvm_lib_fmt = ''lib{0}.so*'',
      libdevice_lib_fmt = ''libdevice.10.bc'', patches = [], nvtoolsextpath = None,
      config = [(''version'', Str ''11.0.3'')], prefix = ''p'', src_dir = ''s'',
      output_dir = ''p/lib'', symlinks = b, debug_install_path = None\<rparr>"

definition foo_world :: world where
  "foo_world =
     \<lparr>fs = [''d'' \<mapsto> Dir [''libfoo.so.1'', ''libfoo.so.2'', ''libfoo.so.3'', ''libbar.so''],
             ''d/libfoo.so.1'' \<mapsto> File ''one'',
             ''d/libfoo.so.2'' \<mapsto> Link ''libfoo.so.1'',
             ''d/libfoo.so.3'' \<mapsto> File ''three'',
             ''d/libbar.so'' \<mapsto> Link ''libbar.so.1''],
      environ = Map.empty, denied = (\<lambda>p. False)\<rparr>"

definition qux_world :: world where
  "qux_world =
     \<lparr>fs = [''d'' \<mapsto> Dir [''libqux.so'', ''libqux.so.1''],
             ''d/libqux.so'' \<mapsto> Link ''libqux.so.1'',
             ''d/libqux.so.1'' \<mapsto> Link ''/opt/qux.bin'',
             ''/opt/qux.bin'' \<mapsto> File ''qux''],
      environ = Map.empty, denied = (\<lambda>p. False)\<rparr>"

definition tree_world :: world where
  "tree_world =
     \<lparr>fs = [''st'' \<mapsto> Dir [],
             ''x/a.dll'' \<mapsto> File ''A1'',
             ''x/b.lib'' \<mapsto> File ''B'',
             ''x/readme.txt'' \<mapsto> File ''R'',
             ''x/sub/a.dll'' \<mapsto> File ''A2'',
             ''x/sub/c.bc'' \<mapsto> File ''C'',
             ''x/jre/j.dll'' \<mapsto> File ''J''],
      environ = Map.empty, denied = (\<lambda>p. False)\<rparr>"

definition tree_walk :: "(string \<times> string list \<times> string list) list" where
  "tree_walk =
     [(''x'', [''sub'', ''jre''], [''a.dll'', ''b.lib'', ''readme.txt'']),
      (''x/sub'', [], [''a.dll'', ''c.bc'']),
      (''x/jre'', [], [''j.dll''])]"

text \<open>
  A system for the Windows extractor: the temporary directory is \<open>tmp\<close>, removing it
  forgets every path that starts with its name, the archive tool either fails with the
  given error or unpacks two files named \<open>a.dll\<close> at two depths and leaves the nodes of
  \<open>locked\<close> denied, and the walks are those of the unpacked tree and of \<open>nvt\<close>.
\<close>

definition example_sys :: "error option \<Rightarrow> (string \<Rightarrow> bool) \<Rightarrow> sys" where
  "example_sys fail locked =
     \<lparr>mkdtemp = (\<lambda>w. (Inr ''tmp'', w\<lparr>fs := (fs w)(''tmp'' \<mapsto> Dir [])\<rparr>)),
      cleanup = (\<lambda>t w. (Inr (), w\<lparr>fs := (\<lambda>p. if startswith p t then None else fs w p)\<rparr>)),
      check_call = (\<lambda>cmd w.
         case fail of
           Some e \<Rightarrow> (Inl e, w)
         | None \<Rightarrow>
             (Inr (), w\<lparr>fs := (fs w)(''tmp/__extracted'' \<mapsto> Dir [''a.dll'', ''sub''],
                                      ''tmp/__extracted/a.dll'' \<mapsto> File ''A1'',
                                      ''tmp/__extracted/sub'' \<mapsto> Dir [''a.dll''],
                                      ''tmp/__extracted/sub/a.dll'' \<mapsto> File ''A2''),
                         denied := locked\<rparr>)),
      os_walk = (\<lambda>top w.
         if top = ''tmp/__extracted''
         then [(''tmp/__extracted'', [''sub''], [''a.dll'']), (''tmp/__extracted/sub'', [], [''a.dll''])]
         else if top = ''nvt''
         then [(''nvt'', [], [''nvToolsExt64_1.dll'', ''a.dll'', ''notes.txt''])]
         else [])\<rparr>"

definition win_world :: "(string \<Rightarrow> string option) \<Rightarrow> world" where
  "win_world env =
     \<lparr>fs = [[] \<mapsto> Dir [],
             ''nvt'' \<mapsto> Dir [''nvToolsExt64_1.dll'', ''a.dll'', ''notes.txt''],
             ''nvt/nvToolsExt64_1.dll'' \<mapsto> File ''N'',
             ''nvt/a.dll'' \<mapsto> File ''other'',
             ''nvt/notes.txt'' \<mapsto> File ''T'',
             ''notadir'' \<mapsto> File ''x'',
             ''st'' \<mapsto> Dir [''a.dll''],
             ''st/a.dll'' \<mapsto> File ''A1''],
      environ = env, denied = (\<lambda>p. False)\<rparr>"

definition out_world :: world where
  "out_world =
     \<lparr>fs = [''d'' \<mapsto> Dir [''libfoo.so.1'', ''libfoo.so.2'', ''libfoo.so.3''],
             ''d/libfoo.so.1'' \<mapsto> File ''one'',
             ''d/libfoo.so.2'' \<mapsto> Link ''libfoo.so.1'',
             ''d/libfoo.so.3'' \<mapsto> File ''three'',
             ''p/lib'' \<mapsto> Dir [''libfoo.so.3''],
             ''p/lib/libfoo.so.3'' \<mapsto> File ''stale''],
      environ = Map.empty, denied = (\<lambda>p. False)\<rparr>"

section \<open>Properties\<close>

subsection \<open>Facts about \<open>get_paths\<close>\<close>

lemma get_paths_loop_append:
  "get_paths_loop L self w d t (xs @ ys) acc =
     (case get_paths_loop L self w d t xs acc of
        Inl e \<Rightarrow> Inl e
      | Inr acc' \<Rightarrow> get_paths_loop L self w d t ys acc')"
  by (induction xs arbitrary: acc) (auto split: sum.splits)

lemma get_paths_loop_fails:
  "libname \<in> set libs \<Longrightarrow> paths_for_lib L self w d t libname = Inl e \<Longrightarrow>
     \<exists>e'. get_paths_loop L self w d t libs acc = Inl e'"
  by (induction libs arbitrary: acc) (auto split: sum.splits)

lemma check_paths_ok:
  "(\<And>p. p \<in> set paths \<Longrightarrow> isfile w (path_join d p)) \<Longrightarrow>
     check_paths w d paths = Inr (map (path_join d) paths)"
  by (induction paths) (auto simp: Let_def)

lemma check_paths_Inr:
  "check_paths w d paths = Inr ps \<Longrightarrow>
     ps = map (path_join d) paths \<and> (\<forall>p \<in> set ps. isfile w p)"
  by (induction paths arbitrary: ps) (auto simp: Let_def split: if_splits sum.splits)

lemma check_paths_Inl:
  "check_paths w d paths = Inl e \<Longrightarrow> \<exists>p \<in> set paths. e = AssertionError (''missing '' @ path_join d p) \<and> \<not> isfile w (path_join d p)"
  by (induction paths) (auto simp: Let_def split: if_splits sum.splits)

lemma foldl_max_Max: "foldl max (x::string) xs = Max (set (x # xs))"
proof -
  have "(\<lambda>a s. max s a) = (max :: string \<Rightarrow> string \<Rightarrow> string)"
    by (intro ext) (rule max.commute)
  then show ?thesis by (simp only: foldl_conv_fold Max.set_eq_fold)
qed

lemma py_max_nonempty: "xs \<noteq> [] \<Longrightarrow> py_max xs = Inr (Max (set xs))"
  by (cases xs) (simp_all add: py_max_def foldl_max_Max del: foldl_Cons)

lemma remove_each_mset:
  "mset xs \<subseteq># mset ps \<Longrightarrow> \<exists>r. remove_each xs ps = Inr r \<and> mset r = mset ps - mset xs"
proof (induction xs arbitrary: ps)
  case Nil
  then show ?case by simp
next
  case (Cons x xs)
  from Cons.prems have x: "x \<in> set ps"
    by (metis insert_subset_eq_iff mset.simps(2) set_mset_mset)
  from Cons.prems have "mset xs \<subseteq># mset (remove1 x ps)"
    by (simp add: insert_subset_eq_iff)
  from Cons.IH[OF this] x show ?case
    by (auto simp: list_remove_def)
qed

lemma mset_keep_one: "t \<in># C \<Longrightarrow> (L + C) - (C - {#t#}) = add_mset t L"
  by (auto dest!: multi_member_split)

lemma drop_unwanted_mset:
  assumes "filter (\<lambda>x. \<not> islink w x) ps \<noteq> []"
  shows "\<exists>r. drop_unwanted w ps = Inr r \<and>
           mset r = add_mset (Max (set (filter (\<lambda>x. \<not> islink w x) ps))) (mset (filter (islink w) ps))"
proof -
  let ?c = "filter (\<lambda>x. \<not> islink w x) ps"
  let ?t = "Max (set ?c)"
  have ne: "set ?c \<noteq> {}" using assms by (simp only: set_empty not_False_eq_True)
  have t: "?t \<in> set ?c" by (rule Max_in[OF finite_set ne])
  have s1: "mset ?c \<subseteq># mset ps" by (simp only: mset_filter multiset_filter_subset)
  have s2: "mset (remove1 ?t ?c) \<subseteq># mset ?c" by (simp only: mset_remove1 diff_subset_eq_self)
  have sub: "mset (remove1 ?t ?c) \<subseteq># mset ps"
    by (rule subset_mset.order_trans[OF s2 s1])
  from remove_each_mset[OF sub] obtain r where
    r: "remove_each (remove1 ?t ?c) ps = Inr r" "mset r = mset ps - mset (remove1 ?t ?c)" by blast
  have part: "mset (filter (islink w) ps) + mset ?c = mset ps"
    by (simp only: mset_filter multiset_partition[symmetric])
  have tin: "?t \<in># mset ?c" using t by (simp only: set_mset_mset)
  have "mset r = (mset (filter (islink w) ps) + mset ?c) - (mset ?c - {#?t#})"
    by (simp only: r(2) part mset_remove1)
  also have "\<dots> = add_mset ?t (mset (filter (islink w) ps))"
    by (rule mset_keep_one[OF tin])
  finally have "mset r = add_mset ?t (mset (filter (islink w) ps))" .
  moreover have "py_max ?c = Inr ?t" using assms by (rule py_max_nonempty)
  moreover have "list_remove ?t ?c = Inr (remove1 ?t ?c)" using t by (simp only: list_remove_def if_True)
  ultimately show ?thesis
    using r(1) by (simp only: drop_unwanted_def Let_def sum.case) simp
qed

lemma get_paths_loop_acc:
  "get_paths_loop L self w d t xs acc =
     (case get_paths_loop L self w d t xs [] of Inl e \<Rightarrow> Inl e | Inr r \<Rightarrow> Inr (acc @ r))"
proof (induction xs arbitrary: acc)
  case Nil
  then show ?case by simp
next
  case (Cons x xs)
  show ?case
  proof (cases "paths_for_lib L self w d t x")
    case (Inl e)
    then show ?thesis by simp
  next
    case (Inr ps)
    have a: "get_paths_loop L self w d t (x # xs) acc = get_paths_loop L self w d t xs (acc @ ps)"
      using Inr by simp
    have b: "get_paths_loop L self w d t (x # xs) [] = get_paths_loop L self w d t xs ps"
      using Inr by simp
    show ?thesis
      by (simp only: a b Cons.IH[of "acc @ ps"] Cons.IH[of ps]) (simp split: sum.splits)
  qed
qed

lemma get_paths_single:
  "get_paths L self w [libname] d t = paths_for_lib L self w d t libname"
  by (simp add: get_paths_def split: sum.splits)

lemma get_paths_at:
  "get_paths L self w pre d t = Inr found \<Longrightarrow>
     get_paths L self w (pre @ libname # post) d t =
       (case paths_for_lib L self w d t libname of
          Inl e \<Rightarrow> Inl e
        | Inr ps \<Rightarrow> get_paths_loop L self w d t post (found @ ps))"
  by (simp add: get_paths_def get_paths_loop_append)

lemma get_paths_has_failure:
  "paths_for_lib L self w d t libname = Inl e \<Longrightarrow>
     \<exists>e'. get_paths L self w (pre @ libname # post) d t = Inl e'"
  unfolding get_paths_def by (rule get_paths_loop_fails) simp_all

lemma get_paths_split:
  assumes "get_paths L self w (pre @ libname # post) d t = Inr r"
  shows "\<exists>a ps b. r = a @ ps @ b \<and> get_paths L self w pre d t = Inr a \<and>
           paths_for_lib L self w d t libname = Inr ps"
proof -
  obtain a where a: "get_paths L self w pre d t = Inr a"
    using assms by (auto simp: get_paths_def get_paths_loop_append split: sum.splits)
  from get_paths_at[OF a] assms obtain ps where
    ps: "paths_for_lib L self w d t libname = Inr ps"
    and rest: "get_paths_loop L self w d t post (a @ ps) = Inr r"
    by (auto split: sum.splits)
  from rest obtain b where "r = (a @ ps) @ b"
    by (subst (asm) get_paths_loop_acc) (auto split: sum.splits)
  with a ps show ?thesis by auto
qed

text \<open>
  Claim C2. When the pattern built for a library name matches no entry of the directory,
  \<open>get_paths\<close> returns no paths: it raises. If the names before it in \<open>libraries\<close> resolve,
  the error is the \<open>RuntimeError\<close> "Cannot find item", which carries the name and the
  pattern.
\<close>

theorem get_paths_not_found:
  assumes "str_format L template libname = Inr filename"
    and "os_listdir w dirpath = Inr names"
    and "fnmatch_filter L names filename = []"
  shows "(\<exists>e. get_paths L self w (pre @ libname # post) dirpath template = Inl e) \<and>
         (get_paths L self w pre dirpath template = Inr found \<longrightarrow>
            get_paths L self w (pre @ libname # post) dirpath template =
              Inl (RuntimeError (cannot_find_msg libname filename)))"
proof -
  have p: "paths_for_lib L self w dirpath template libname =
             Inl (RuntimeError (cannot_find_msg libname filename))"
    using assms by (simp add: paths_for_lib_def)
  show ?thesis
    using get_paths_has_failure[OF p] by (auto simp: get_paths_at p)
qed

theorem get_paths_not_found_witness:
  "str_format example_stdlib ''lib{0}.so*'' ''baz'' = Inr ''libbaz.so*'' \<and>
   os_listdir foo_world ''d'' = Inr [''libfoo.so.1'', ''libfoo.so.2'', ''libfoo.so.3'', ''libbar.so''] \<and>
   fnmatch_filter example_stdlib [''libfoo.so.1'', ''libfoo.so.2'', ''libfoo.so.3'', ''libbar.so''] ''libbaz.so*'' = [] \<and>
   get_paths example_stdlib (example_self True) foo_world [''foo''] ''d'' ''lib{0}.so*''
     = Inr [''d/libfoo.so.2'', ''d/libfoo.so.3''] \<and>
   get_paths example_stdlib (example_self True) foo_world [''foo'', ''baz'', ''foo''] ''d'' ''lib{0}.so*''
     = Inl (RuntimeError ''Cannot find item: baz, looked for libbaz.so*'')"
proof -
  have a: "str_format example_stdlib ''lib{0}.so*'' ''baz'' = Inr ''libbaz.so*''"
    by (simp add: example_stdlib_def)
  have b: "os_listdir foo_world ''d'' = Inr [''libfoo.so.1'', ''libfoo.so.2'', ''libfoo.so.3'', ''libbar.so'']"
    by (simp add: os_listdir_def foo_world_def numeral_eq_Suc)
  have c: "fnmatch_filter example_stdlib [''libfoo.so.1'', ''libfoo.so.2'', ''libfoo.so.3'', ''libbar.so''] ''libbaz.so*'' = []"
    by (simp add: fnmatch_filter_def example_stdlib_def)
  have d: "get_paths example_stdlib (example_self True) foo_world [''foo''] ''d'' ''lib{0}.so*''
     = Inr [''d/libfoo.so.2'', ''d/libfoo.so.3'']"
    by code_simp
  from get_paths_not_found[OF a b c, of "example_self True" "[''foo'']" "[''foo'']" "[''d/libfoo.so.2'', ''d/libfoo.so.3'']"] a b c d
  show ?thesis by (simp add: cannot_find_msg_def)
qed

text \<open>
  Claim C3. When \<open>self.symlinks\<close> is off (the Windows mode) and two or more entries match
  the pattern of a library name, \<open>get_paths\<close> returns none of them: it raises. If the
  names before it resolve, the error is the \<open>RuntimeError\<close> "Aliasing present", which
  lists the matches.
\<close>

theorem get_paths_ambiguous:
  assumes "\<not> symlinks self"
    and "str_format L template libname = Inr filename"
    and "os_listdir w dirpath = Inr names"
    and "fnmatch_filter L names filename = paths"
    and "2 \<le> length paths"
  shows "(\<exists>e. get_paths L self w (pre @ libname # post) dirpath template = Inl e) \<and>
         (get_paths L self w pre dirpath template = Inr found \<longrightarrow>
            get_paths L self w (pre @ libname # post) dirpath template =
              Inl (RuntimeError (aliasing_msg libname filename paths)))"
proof -
  have "paths \<noteq> []" "length paths \<noteq> 1" using assms(5) by auto
  then have p: "paths_for_lib L self w dirpath template libname =
             Inl (RuntimeError (aliasing_msg libname filename paths))"
    using assms by (simp add: paths_for_lib_def)
  show ?thesis
    using get_paths_has_failure[OF p] by (auto simp: get_paths_at p)
qed

theorem get_paths_ambiguous_witness:
  "\<not> symlinks (example_self False) \<and>
   str_format example_stdlib ''lib{0}.so*'' ''foo'' = Inr ''libfoo.so*'' \<and>
   os_listdir foo_world ''d'' = Inr [''libfoo.so.1'', ''libfoo.so.2'', ''libfoo.so.3'', ''libbar.so''] \<and>
   fnmatch_filter example_stdlib [''libfoo.so.1'', ''libfoo.so.2'', ''libfoo.so.3'', ''libbar.so''] ''libfoo.so*''
     = [''libfoo.so.1'', ''libfoo.so.2'', ''libfoo.so.3''] \<and>
   get_paths example_stdlib (example_self False) foo_world [] ''d'' ''lib{0}.so*'' = Inr [] \<and>
   get_paths example_stdlib (example_self False) foo_world [''foo''] ''d'' ''lib{0}.so*''
     = Inl (RuntimeError (aliasing_msg ''foo'' ''libfoo.so*'' [''libfoo.so.1'', ''libfoo.so.2'', ''libfoo.so.3'']))"
proof -
  have s: "\<not> symlinks (example_self False)"
    by (simp add: example_self_def)
  have a: "str_format example_stdlib ''lib{0}.so*'' ''foo'' = Inr ''libfoo.so*''"
    by (simp add: example_stdlib_def)
  have b: "os_listdir foo_world ''d'' = Inr [''libfoo.so.1'', ''libfoo.so.2'', ''libfoo.so.3'', ''libbar.so'']"
    by (simp add: os_listdir_def foo_world_def numeral_eq_Suc)
  have c: "fnmatch_filter example_stdlib [''libfoo.so.1'', ''libfoo.so.2'', ''libfoo.so.3'', ''libbar.so''] ''libfoo.so*''
     = [''libfoo.so.1'', ''libfoo.so.2'', ''libfoo.so.3'']"
    by (simp add: fnmatch_filter_def example_stdlib_def)
  have d: "get_paths example_stdlib (example_self False) foo_world [] ''d'' ''lib{0}.so*'' = Inr []"
    by (simp add: get_paths_def)
  from get_paths_ambiguous[OF s a b c, of "[]" "[]" "[]"] s a b c d
  show ?thesis by simp
qed

lemma paths_for_lib_symlink_mode:
  assumes "symlinks self"
    and "str_format L template libname = Inr filename"
    and "os_listdir w dirpath = Inr names"
    and "fnmatch_filter L names filename \<noteq> []"
  shows "paths_for_lib L self w dirpath template libname =
     (case check_paths w dirpath (fnmatch_filter L names filename) of
        Inl e \<Rightarrow> Inl e
      | Inr pathsforlib \<Rightarrow> drop_unwanted w pathsforlib)"
  using assms by (simp add: paths_for_lib_def Let_def split: sum.splits)

lemma drop_unwanted_no_concrete:
  "filter (\<lambda>x. \<not> islink w x) ps = [] \<Longrightarrow> drop_unwanted w ps = Inl (ValueError max_empty_msg)"
  by (simp add: drop_unwanted_def py_max_def)

text \<open>
  Claim C1. In symlink mode (\<open>self.symlinks\<close> set), when the matches of a library name
  all pass the \<open>isfile\<close> assertion and at least one of them is not a symbolic link,
  \<open>get_paths\<close> returns for that name the greatest concrete match in the order of strings
  together with every matched link, each once, and no other concrete match; in a longer
  list of names these paths appear as one block of the result.
\<close>

theorem get_paths_symlink_mode:
  assumes "symlinks self"
    and "str_format L template libname = Inr filename"
    and "os_listdir w dirpath = Inr names"
    and "pathsforlib = map (path_join dirpath) (fnmatch_filter L names filename)"
    and "\<forall>p \<in> set pathsforlib. isfile w p"
    and "concrete = filter (\<lambda>x. \<not> islink w x) pathsforlib"
    and "concrete \<noteq> []"
  shows "\<exists>ps. get_paths L self w [libname] dirpath template = Inr ps \<and>
           set ps = insert (Max (set concrete)) {p \<in> set pathsforlib. islink w p} \<and>
           mset ps = add_mset (Max (set concrete)) (mset (filter (islink w) pathsforlib)) \<and>
           (\<forall>p \<in> set concrete. p \<noteq> Max (set concrete) \<longrightarrow> p \<notin> set ps) \<and>
           (\<forall>pre post r. get_paths L self w (pre @ libname # post) dirpath template = Inr r
              \<longrightarrow> (\<exists>a b. r = a @ ps @ b))"
proof -
  have ne: "fnmatch_filter L names filename \<noteq> []"
    using assms(4,6,7) by auto
  have chk: "check_paths w dirpath (fnmatch_filter L names filename) = Inr pathsforlib"
    unfolding assms(4) by (rule check_paths_ok) (use assms(4,5) in auto)
  have pfl: "paths_for_lib L self w dirpath template libname = drop_unwanted w pathsforlib"
    by (simp add: paths_for_lib_symlink_mode[OF assms(1-3) ne] chk)
  from drop_unwanted_mset[of w pathsforlib] assms(6,7) obtain ps where
    ps: "drop_unwanted w pathsforlib = Inr ps"
    and ms: "mset ps = add_mset (Max (set concrete)) (mset (filter (islink w) pathsforlib))"
    by auto
  have st: "set ps = insert (Max (set concrete)) {p \<in> set pathsforlib. islink w p}"
    using arg_cong[OF ms, of set_mset] by simp
  have other: "\<forall>p \<in> set concrete. p \<noteq> Max (set concrete) \<longrightarrow> p \<notin> set ps"
    unfolding st assms(6) by auto
  have ctx: "\<forall>pre post r. get_paths L self w (pre @ libname # post) dirpath template = Inr r
              \<longrightarrow> (\<exists>a b. r = a @ ps @ b)"
  proof (intro allI impI)
    fix pre post r
    assume "get_paths L self w (pre @ libname # post) dirpath template = Inr r"
    from get_paths_split[OF this] show "\<exists>a b. r = a @ ps @ b"
      by (auto simp: pfl ps)
  qed
  show ?thesis
    using ps ms st other ctx by (simp only: get_paths_single pfl) blast
qed

theorem get_paths_symlink_mode_witness:
  "symlinks (example_self True) \<and>
   str_format example_stdlib ''lib{0}.so*'' ''foo'' = Inr ''libfoo.so*'' \<and>
   os_listdir foo_world ''d'' = Inr [''libfoo.so.1'', ''libfoo.so.2'', ''libfoo.so.3'', ''libbar.so''] \<and>
   map (path_join ''d'') (fnmatch_filter example_stdlib
       [''libfoo.so.1'', ''libfoo.so.2'', ''libfoo.so.3'', ''libbar.so''] ''libfoo.so*'')
     = [''d/libfoo.so.1'', ''d/libfoo.so.2'', ''d/libfoo.so.3''] \<and>
   list_all (isfile foo_world) [''d/libfoo.so.1'', ''d/libfoo.so.2'', ''d/libfoo.so.3''] \<and>
   filter (\<lambda>x. \<not> islink foo_world x) [''d/libfoo.so.1'', ''d/libfoo.so.2'', ''d/libfoo.so.3'']
     = [''d/libfoo.so.1'', ''d/libfoo.so.3''] \<and>
   Max (set [''d/libfoo.so.1'', ''d/libfoo.so.3'']) = ''d/libfoo.so.3'' \<and>
   (\<exists>ps. get_paths example_stdlib (example_self True) foo_world [''foo''] ''d'' ''lib{0}.so*'' = Inr ps \<and>
      set ps = {''d/libfoo.so.3'', ''d/libfoo.so.2''} \<and> ''d/libfoo.so.1'' \<notin> set ps)"
proof -
  have s: "symlinks (example_self True)"
    by (simp add: example_self_def)
  have a: "str_format example_stdlib ''lib{0}.so*'' ''foo'' = Inr ''libfoo.so*''"
    by (simp add: example_stdlib_def)
  have b: "os_listdir foo_world ''d'' = Inr [''libfoo.so.1'', ''libfoo.so.2'', ''libfoo.so.3'', ''libbar.so'']"
    by (simp add: os_listdir_def foo_world_def numeral_eq_Suc)
  have c: "[''d/libfoo.so.1'', ''d/libfoo.so.2'', ''d/libfoo.so.3''] =
     map (path_join ''d'') (fnmatch_filter example_stdlib
       [''libfoo.so.1'', ''libfoo.so.2'', ''libfoo.so.3'', ''libbar.so''] ''libfoo.so*'')"
    by (simp add: fnmatch_filter_def example_stdlib_def path_join_def)
  have d: "list_all (isfile foo_world) [''d/libfoo.so.1'', ''d/libfoo.so.2'', ''d/libfoo.so.3'']"
    by (simp add: isfile_def stat_def foo_world_def numeral_eq_Suc path_join_def dirname_def)
  then have d': "\<forall>p \<in> set [''d/libfoo.so.1'', ''d/libfoo.so.2'', ''d/libfoo.so.3'']. isfile foo_world p"
    by (simp only: list_all_iff)
  have e: "[''d/libfoo.so.1'', ''d/libfoo.so.3''] =
     filter (\<lambda>x. \<not> islink foo_world x) [''d/libfoo.so.1'', ''d/libfoo.so.2'', ''d/libfoo.so.3'']"
    by (simp add: islink_def foo_world_def)
  have f: "[''d/libfoo.so.1'', ''d/libfoo.so.3''] \<noteq> []" by simp
  have m: "Max (set [''d/libfoo.so.1'', ''d/libfoo.so.3'']) = ''d/libfoo.so.3''"
    by simp
  have l: "{p \<in> set [''d/libfoo.so.1'', ''d/libfoo.so.2'', ''d/libfoo.so.3'']. islink foo_world p} = {''d/libfoo.so.2''}"
    by (auto simp: islink_def foo_world_def)
  from get_paths_symlink_mode[OF s a b c d' e f] obtain ps where
    "get_paths example_stdlib (example_self True) foo_world [''foo''] ''d'' ''lib{0}.so*'' = Inr ps"
    "set ps = insert (Max (set [''d/libfoo.so.1'', ''d/libfoo.so.3'']))
        {p \<in> set [''d/libfoo.so.1'', ''d/libfoo.so.2'', ''d/libfoo.so.3'']. islink foo_world p}"
    by blast
  then have "\<exists>ps. get_paths example_stdlib (example_self True) foo_world [''foo''] ''d'' ''lib{0}.so*'' = Inr ps \<and>
      set ps = {''d/libfoo.so.3'', ''d/libfoo.so.2''} \<and> ''d/libfoo.so.1'' \<notin> set ps"
    by (simp only: m l) simp
  with s a b c[symmetric] d e[symmetric] m show ?thesis by (intro conjI)
qed

text \<open>
  Claim C10. In symlink mode, a library name whose pattern matches at least one entry
  and only symbolic links makes \<open>get_paths\<close> raise. When the loop reaches the name, the
  error is never the "Cannot find item" \<open>RuntimeError\<close>: it is the \<open>ValueError\<close> of \<open>max\<close>
  on the empty list when every link passes the \<open>isfile\<close> assertion, and the
  \<open>AssertionError\<close> of the first link that does not otherwise.
\<close>

theorem get_paths_only_symlinks:
  assumes "symlinks self"
    and "str_format L template libname = Inr filename"
    and "os_listdir w dirpath = Inr names"
    and "paths = fnmatch_filter L names filename"
    and "paths \<noteq> []"
    and "\<forall>p \<in> set paths. islink w (path_join dirpath p)"
  shows "(\<exists>e. get_paths L self w (pre @ libname # post) dirpath template = Inl e) \<and>
         (get_paths L self w pre dirpath template = Inr found \<longrightarrow>
            (\<exists>e. get_paths L self w (pre @ libname # post) dirpath template = Inl e \<and>
                 e \<noteq> RuntimeError (cannot_find_msg libname filename) \<and>
                 (if \<forall>p \<in> set paths. isfile w (path_join dirpath p)
                  then e = ValueError max_empty_msg
                  else \<exists>p \<in> set paths. \<not> isfile w (path_join dirpath p) \<and>
                         e = AssertionError (''missing '' @ path_join dirpath p))))"
proof -
  have pfl: "paths_for_lib L self w dirpath template libname =
     (case check_paths w dirpath paths of
        Inl e \<Rightarrow> Inl e
      | Inr pathsforlib \<Rightarrow> drop_unwanted w pathsforlib)"
    using paths_for_lib_symlink_mode[OF assms(1-3)] assms(4,5) by simp
  have "\<exists>e. paths_for_lib L self w dirpath template libname = Inl e \<and>
          e \<noteq> RuntimeError (cannot_find_msg libname filename) \<and>
          (if \<forall>p \<in> set paths. isfile w (path_join dirpath p)
           then e = ValueError max_empty_msg
           else \<exists>p \<in> set paths. \<not> isfile w (path_join dirpath p) \<and>
                  e = AssertionError (''missing '' @ path_join dirpath p))"
  proof (cases "check_paths w dirpath paths")
    case (Inl e)
    from check_paths_Inl[OF Inl] show ?thesis
      by (auto simp: pfl Inl)
  next
    case (Inr pathsforlib)
    from check_paths_Inr[OF Inr] have eq: "pathsforlib = map (path_join dirpath) paths"
      and ok: "\<forall>p \<in> set pathsforlib. isfile w p" by auto
    have "filter (\<lambda>x. \<not> islink w x) pathsforlib = []"
      using assms(6) by (auto simp: eq filter_empty_conv)
    from drop_unwanted_no_concrete[OF this] ok show ?thesis
      by (auto simp: pfl Inr eq)
  qed
  then obtain e where e: "paths_for_lib L self w dirpath template libname = Inl e"
    and rest: "e \<noteq> RuntimeError (cannot_find_msg libname filename)"
      "if \<forall>p \<in> set paths. isfile w (path_join dirpath p)
           then e = ValueError max_empty_msg
           else \<exists>p \<in> set paths. \<not> isfile w (path_join dirpath p) \<and>
                  e = AssertionError (''missing '' @ path_join dirpath p)"
    by blast
  have 1: "\<exists>e. get_paths L self w (pre @ libname # post) dirpath template = Inl e"
    by (rule get_paths_has_failure[OF e])
  have 2: "get_paths L self w pre dirpath template = Inr found \<longrightarrow>
            (\<exists>e. get_paths L self w (pre @ libname # post) dirpath template = Inl e \<and>
                 e \<noteq> RuntimeError (cannot_find_msg libname filename) \<and>
                 (if \<forall>p \<in> set paths. isfile w (path_join dirpath p)
                  then e = ValueError max_empty_msg
                  else \<exists>p \<in> set paths. \<not> isfile w (path_join dirpath p) \<and>
                         e = AssertionError (''missing '' @ path_join dirpath p)))"
  proof
    assume "get_paths L self w pre dirpath template = Inr found"
    from get_paths_at[OF this, of libname post] have
      "get_paths L self w (pre @ libname # post) dirpath template = Inl e"
      by (simp add: e)
    with rest show "\<exists>e. get_paths L self w (pre @ libname # post) dirpath template = Inl e \<and>
                 e \<noteq> RuntimeError (cannot_find_msg libname filename) \<and>
                 (if \<forall>p \<in> set paths. isfile w (path_join dirpath p)
                  then e = ValueError max_empty_msg
                  else \<exists>p \<in> set paths. \<not> isfile w (path_join dirpath p) \<and>
                         e = AssertionError (''missing '' @ path_join dirpath p))"
      by blast
  qed
  from 1 2 show ?thesis by (rule conjI)
qed

theorem get_paths_only_symlinks_witness:
  "symlinks (example_self True) \<and>
   str_format example_stdlib ''lib{0}.so*'' ''qux'' = Inr ''libqux.so*'' \<and>
   os_listdir qux_world ''d'' = Inr [''libqux.so'', ''libqux.so.1''] \<and>
   fnmatch_filter example_stdlib [''libqux.so'', ''libqux.so.1''] ''libqux.so*''
     = [''libqux.so'', ''libqux.so.1''] \<and>
   list_all (\<lambda>p. islink qux_world (path_join ''d'' p)) [''libqux.so'', ''libqux.so.1''] \<and>
   list_all (\<lambda>p. isfile qux_world (path_join ''d'' p)) [''libqux.so'', ''libqux.so.1''] \<and>
   get_paths example_stdlib (example_self True) qux_world [] ''d'' ''lib{0}.so*'' = Inr [] \<and>
   get_paths example_stdlib (example_self True) qux_world [''qux''] ''d'' ''lib{0}.so*''
     = Inl (ValueError max_empty_msg)"
proof -
  have s: "symlinks (example_self True)"
    by (simp add: example_self_def)
  have a: "str_format example_stdlib ''lib{0}.so*'' ''qux'' = Inr ''libqux.so*''"
    by (simp add: example_stdlib_def)
  have b: "os_listdir qux_world ''d'' = Inr [''libqux.so'', ''libqux.so.1'']"
    by (simp add: os_listdir_def qux_world_def numeral_eq_Suc)
  have c: "[''libqux.so'', ''libqux.so.1''] =
      fnmatch_filter example_stdlib [''libqux.so'', ''libqux.so.1''] ''libqux.so*''"
    by (simp add: fnmatch_filter_def example_stdlib_def)
  have n: "[''libqux.so'', ''libqux.so.1''] \<noteq> []" by simp
  have l: "list_all (\<lambda>p. islink qux_world (path_join ''d'' p)) [''libqux.so'', ''libqux.so.1'']"
    by (simp add: islink_def qux_world_def path_join_def)
  then have l': "\<forall>p \<in> set [''libqux.so'', ''libqux.so.1'']. islink qux_world (path_join ''d'' p)"
    by (simp only: list_all_iff)
  have f: "list_all (\<lambda>p. isfile qux_world (path_join ''d'' p)) [''libqux.so'', ''libqux.so.1'']"
    by (simp add: isfile_def stat_def qux_world_def numeral_eq_Suc path_join_def dirname_def)
  then have f': "\<forall>p \<in> set [''libqux.so'', ''libqux.so.1'']. isfile qux_world (path_join ''d'' p)"
    by (simp only: list_all_iff)
  have d: "get_paths example_stdlib (example_self True) qux_world [] ''d'' ''lib{0}.so*'' = Inr []"
    by (simp add: get_paths_def)
  from get_paths_only_symlinks[OF s a b c n l', of "[]" "[]" "[]"] d f'
  have "get_paths example_stdlib (example_self True) qux_world [''qux''] ''d'' ''lib{0}.so*''
     = Inl (ValueError max_empty_msg)"
    by simp
  with s a b c[symmetric] l f d show ?thesis by (intro conjI)
qed

subsection \<open>Facts about \<open>Extractor.__init__\<close> and \<open>main\<close>\<close>

lemma split_dot_nonempty: "split_dot v \<noteq> []"
  by (induction v) (auto split: list.splits)

lemma length_split_dot: "length (split_dot v) = Suc (length (filter (\<lambda>c. c = CHR ''.'') v))"
proof (induction v)
  case Nil
  then show ?case by simp
next
  case (Cons c cs)
  then show ?case
    using split_dot_nonempty[of cs] by (auto split: list.splits)
qed

lemma split_dot_short: "length (split_dot v) < 2 \<longleftrightarrow> CHR ''.'' \<notin> set v"
  by (auto simp: length_split_dot filter_empty_conv less_Suc_eq)

lemma version_parts_of_cases:
  "version_parts_of L v =
     (if CHR ''.'' \<notin> set v then Inl (ValueError (repr_str L v @ '' not a valid version string''))
      else Inr (split_dot v ! 0, split_dot v ! 1,
                if length (split_dot v) = 2 then None else Some (split_dot v ! 2)))"
  using split_dot_short[of v] by (auto simp: version_parts_of_def Let_def)

lemma init_after_check:
  "\<exists>e. (case map_of (CONFIG sp) platform of
                  None \<Rightarrow> (Inl (KeyError platform), w)
                | Some plt_config \<Rightarrow>
                    (case subscripts plt_config
                            [''blob'', ''cuda_lib_fmt'', ''cuda_static_lib_fmt'',
                             ''nvvm_lib_fmt'', ''libdevice_lib_fmt'', ''patches''] of
                       Inl e \<Rightarrow> (Inl e, w)
                     | Inr u \<Rightarrow> (Inl (NameError ''ver_config''), w))) = (Inl e, w :: world) \<and>
        (\<forall>m. e \<noteq> ValueError m)"
  apply (cases "map_of (CONFIG sp) platform")
   apply simp
  subgoal for c
    apply (cases "subscripts c [''blob'', ''cuda_lib_fmt'', ''cuda_static_lib_fmt'',
                             ''nvvm_lib_fmt'', ''libdevice_lib_fmt'', ''patches'']")
     apply (auto simp: subscript_def split: sum.splits pyval.splits option.splits)
    done
  done

lemma Extractor_init_Some:
  "\<exists>e. (\<forall>m. e \<noteq> ValueError m) \<and>
        Extractor_init L sys_platform platform (Some v) w =
          (if CHR ''.'' \<notin> set v
           then (Inl (ValueError (repr_str L v @ '' not a valid version string'')), w)
           else (Inl e, w))"
proof -
  obtain e where e: "(case map_of (CONFIG sys_platform) platform of
                  None \<Rightarrow> (Inl (KeyError platform), w)
                | Some plt_config \<Rightarrow>
                    (case subscripts plt_config
                            [''blob'', ''cuda_lib_fmt'', ''cuda_static_lib_fmt'',
                             ''nvvm_lib_fmt'', ''libdevice_lib_fmt'', ''patches''] of
                       Inl e \<Rightarrow> (Inl e, w)
                     | Inr u \<Rightarrow> (Inl (NameError ''ver_config''), w)))
           = ((Inl e, w) :: (error + extractor) \<times> world)"
    and nv: "\<forall>m. e \<noteq> ValueError m"
    using init_after_check[where sp=sys_platform and platform=platform and w=w] by blast
  have "Extractor_init L sys_platform platform (Some v) w =
      (if CHR ''.'' \<notin> set v
       then (Inl (ValueError (repr_str L v @ '' not a valid version string'')), w)
       else (Inl e, w))"
  proof (cases "CHR ''.'' \<in> set v")
    case True
    show ?thesis
      unfolding Extractor_init_def version_parts_of_cases
      by (simp only: True e option.case sum.case prod.case if_True if_False simp_thms)
  next
    case False
    show ?thesis
      unfolding Extractor_init_def version_parts_of_cases
      by (simp only: False option.case sum.case prod.case if_True if_False simp_thms)
  qed
  with nv show ?thesis by blast
qed

text \<open>
  Claim C4, as amended. The constructor raises the \<open>ValueError\<close> of line 140 exactly when
  the version string has no dot, that is fewer than two parts; the version check accepts
  every string of two or more parts, whatever the parts are. Every call of the
  constructor raises and leaves the world as it found it.
\<close>

theorem Extractor_init_version_check:
  "(\<exists>e. Extractor_init L sys_platform platform (Some v) w = (Inl e, w)) \<and>
   (Extractor_init L sys_platform platform (Some v) w
      = (Inl (ValueError (repr_str L v @ '' not a valid version string'')), w)
    \<longleftrightarrow> CHR ''.'' \<notin> set v) \<and>
   ((\<exists>parts. version_parts_of L v = Inr parts) \<longleftrightarrow> 2 \<le> length (split_dot v)) \<and>
   (length (split_dot v) < 2 \<longleftrightarrow> CHR ''.'' \<notin> set v)"
proof -
  from Extractor_init_Some[where L=L and sys_platform=sys_platform and platform=platform
        and v=v and w=w]
  obtain e where nv: "\<forall>m. e \<noteq> ValueError m"
    and init: "Extractor_init L sys_platform platform (Some v) w =
      (if CHR ''.'' \<notin> set v
       then (Inl (ValueError (repr_str L v @ '' not a valid version string'')), w)
       else (Inl e, w))"
    by blast
  have 1: "\<exists>e. Extractor_init L sys_platform platform (Some v) w = (Inl e, w)"
    by (simp add: init)
  have 2: "Extractor_init L sys_platform platform (Some v) w
      = (Inl (ValueError (repr_str L v @ '' not a valid version string'')), w)
    \<longleftrightarrow> CHR ''.'' \<notin> set v"
    using nv by (auto simp: init)
  have 3: "(\<exists>parts. version_parts_of L v = Inr parts) \<longleftrightarrow> 2 \<le> length (split_dot v)"
    using split_dot_short[of v] by (auto simp: version_parts_of_cases)
  from 1 2 3 split_dot_short[of v] show ?thesis by blast
qed

text \<open>
  Claim C4 as stated fails: the version check accepts \<open>a.b.c\<close>, whose parts are not
  numeric, and \<open>1.2.3.4\<close>, which has four; \<open>11\<close> is refused as claimed.
\<close>

theorem Extractor_init_accepts_non_numeric:
  "version_parts_of example_stdlib ''a.b.c'' = Inr (''a'', ''b'', Some ''c'') \<and>
   version_parts_of example_stdlib ''1.2.3.4'' = Inr (''1'', ''2'', Some ''3'') \<and>
   Extractor_init example_stdlib ''win32'' ''windows'' (Some ''a.b.c'') foo_world
     = (Inl (NameError ''ver_config''), foo_world) \<and>
   Extractor_init example_stdlib ''win32'' ''windows'' (Some ''11'') foo_world
     = (Inl (ValueError ([CHR 0x27] @ ''11'' @ [CHR 0x27] @ '' not a valid version string'')), foo_world)"
  by (simp add: version_parts_of_def Extractor_init_def CONFIG_def subscript_def example_stdlib_def)

text \<open>
  Claim C9. No run of \<open>main\<close> ends normally, so none writes the configuration file:
  on Windows the constructor stops at the undefined name of line 156, on Linux the call
  of the constructor lacks an argument.
\<close>

theorem main_never_returns:
  "(\<exists>e. main L S sys_platform ns_version w = (Inl e, w)) \<and>
   main L S ''win32'' (Some ''11.0.3'') w = (Inl (NameError ''ver_config''), w) \<and>
   (\<exists>m. main L S ''linux'' (Some ''11.0.3'') w = (Inl (TypeError m), w))"
proof -
  have init: "\<exists>e. Extractor_init L sys_platform p ns_version w = (Inl e, w)" for p
  proof (cases ns_version)
    case None
    then show ?thesis by (simp add: Extractor_init_def)
  next
    case (Some v)
    then show ?thesis
      using Extractor_init_Some[where L=L and sys_platform=sys_platform and platform=p
          and v=v and w=w]
      by (auto split: if_splits)
  qed
  have 1: "\<exists>e. main L S sys_platform ns_version w = (Inl e, w)"
  proof (cases "getplatform sys_platform")
    case (Inl e)
    then show ?thesis by (simp add: main_def)
  next
    case (Inr plat)
    from init[of plat] obtain e where "Extractor_init L sys_platform plat ns_version w = (Inl e, w)" ..
    then show ?thesis using Inr by (simp add: main_def seq_def)
  qed
  have 2: "main L S ''win32'' (Some ''11.0.3'') w = (Inl (NameError ''ver_config''), w)"
    by (simp add: main_def seq_def getplatform_def startswith_def Extractor_init_def
          version_parts_of_def CONFIG_def subscript_def)
  have 3: "\<exists>m. main L S ''linux'' (Some ''11.0.3'') w = (Inl (TypeError m), w)"
    by (simp add: main_def getplatform_def startswith_def)
  from 1 2 3 show ?thesis by blast
qed

subsection \<open>Facts about paths and the file system\<close>

lemma path_join_plain:
  "plain f \<Longrightarrow> path_join d f = (if d = [] \<or> last d = CHR ''/'' then d @ f else d @ ''/'' @ f)"
  by (cases f) (auto simp: plain_def path_join_def)

lemma plain_rev: "plain f \<Longrightarrow> x \<in> set (rev f) \<Longrightarrow> x \<noteq> CHR ''/''"
  by (auto simp: plain_def)

lemma takeWhile_plain:
  "plain f \<Longrightarrow> takeWhile (\<lambda>c. c \<noteq> CHR ''/'') (rev f @ CHR ''/'' # ys) = rev f"
  by (subst takeWhile_append2) (auto dest: plain_rev)

lemma takeWhile_plain0:
  "plain f \<Longrightarrow> takeWhile (\<lambda>c. c \<noteq> CHR ''/'') (rev f) = rev f"
  using takeWhile_append2[of "rev f" "\<lambda>c. c \<noteq> CHR ''/''" "[]"] by (auto dest: plain_rev)

lemma dropWhile_plain:
  "plain f \<Longrightarrow> dropWhile (\<lambda>c. c \<noteq> CHR ''/'') (rev f @ CHR ''/'' # ys) = CHR ''/'' # ys"
  by (subst dropWhile_append2) (auto dest: plain_rev)

lemma basename_append_plain:
  assumes "plain f" "d = [] \<or> last d = CHR ''/''"
  shows "basename (d @ f) = f"
proof (cases d rule: rev_cases)
  case Nil
  show ?thesis unfolding basename_def Nil
    by (simp only: append_Nil takeWhile_plain0[OF assms(1)] rev_rev_ident)
next
  case (snoc ys y)
  with assms(2) have y: "y = CHR ''/''" by simp
  show ?thesis unfolding basename_def snoc y
    by (simp only: rev_append rev.simps append_Nil append_Cons append_assoc
          takeWhile_plain[OF assms(1)] rev_rev_ident)
qed

lemma basename_join: "plain f \<Longrightarrow> basename (path_join d f) = f"
proof -
  assume p: "plain f"
  show ?thesis
  proof (cases "d = [] \<or> last d = CHR ''/''")
    case True
    then show ?thesis using p by (simp add: path_join_plain basename_append_plain)
  next
    case False
    have "basename ((d @ ''/'') @ f) = f"
      by (rule basename_append_plain[OF p]) simp
    then show ?thesis using p False by (simp add: path_join_plain)
  qed
qed

lemma dirname_join:
  assumes "plain f" "no_trailing_slash d"
  shows "dirname (path_join d f) = d"
proof -
  from assms(2) obtain d' c where d: "d = d' @ [c]" "c \<noteq> CHR ''/''"
    by (cases d rule: rev_cases) (auto simp: no_trailing_slash_def)
  have pj: "path_join d f = d @ ''/'' @ f"
    using assms by (simp add: path_join_plain no_trailing_slash_def)
  have "rev (d @ ''/'' @ f) = rev f @ CHR ''/'' # rev d" by simp
  then have hd: "rev (dropWhile (\<lambda>c. c \<noteq> CHR ''/'') (rev (d @ ''/'' @ f))) = d @ ''/''"
    by (simp only: dropWhile_plain[OF assms(1)]) simp
  have nall: "\<not> list_all (\<lambda>c. c = CHR ''/'') (d @ ''/'')"
    using d by simp
  have strip: "rev (dropWhile (\<lambda>c. c = CHR ''/'') (rev (d @ ''/''))) = d"
    using d by simp
  show ?thesis
    unfolding pj dirname_def Let_def hd
    using nall strip by simp
qed

lemma join_inj: "plain f \<Longrightarrow> plain g \<Longrightarrow> path_join d f = path_join d g \<Longrightarrow> f = g"
  by (auto simp: path_join_plain split: if_splits)

lemma join_neq_dir: "plain f \<Longrightarrow> path_join d f \<noteq> d"
  by (auto simp: path_join_plain plain_def split: if_splits)

lemma follow_nonlink: "(\<And>t. f q \<noteq> Some (Link t)) \<Longrightarrow> follow 40 f q = Some q"
  by (simp add: numeral_eq_Suc split: option.splits node.splits)

lemma stat_nonlink: "(\<And>t. f q \<noteq> Some (Link t)) \<Longrightarrow> stat f q = f q"
  by (simp add: stat_def follow_nonlink)

lemma isdir_Dir: "fs w d = Some (Dir ns) \<Longrightarrow> isdir w d"
  by (simp add: isdir_def stat_nonlink)

lemma isfile_File: "fs w p = Some (File b) \<Longrightarrow> isfile w p"
  by (simp add: isfile_def stat_nonlink)

lemma isfile_None: "fs w p = None \<Longrightarrow> \<not> isfile w p"
  by (simp add: isfile_def stat_nonlink)

lemma lookup_dir_Dir:
  "fs w d = Some (Dir ns) \<Longrightarrow> \<not> denied w d \<Longrightarrow> lookup_dir w d = Inr (d, ns)"
  by (simp add: lookup_dir_def follow_nonlink)

lemma create_in_dir:
  assumes "fs w d = Some (Dir ns)" "\<not> denied w d" "plain f" "no_trailing_slash d"
  shows "create (path_join d f) n w =
           (Inr (), w\<lparr>fs := (fs w)(d \<mapsto> Dir (ns @ [f]), path_join d f \<mapsto> n)\<rparr>)"
  using assms by (simp add: create_def dirname_join basename_join lookup_dir_Dir)

lemma write_file_new:
  assumes "fs w d = Some (Dir ns)" "\<not> denied w d" "plain f" "no_trailing_slash d"
    and "fs w (path_join d f) = None"
  shows "write_file (path_join d f) b w =
           (Inr (), w\<lparr>fs := (fs w)(d \<mapsto> Dir (ns @ [f]), path_join d f \<mapsto> File b)\<rparr>)"
  using assms by (simp add: write_file_def follow_nonlink create_in_dir)

lemma write_file_over:
  assumes "fs w p = Some (File c)" "\<not> denied w p"
  shows "write_file p b w = (Inr (), w\<lparr>fs := (fs w)(p \<mapsto> File b)\<rparr>)"
  using assms by (simp add: write_file_def follow_nonlink)

lemma shutil_copy_into_dir:
  assumes "fs w d = Some (Dir ns)" "plain f" "basename src = f"
    and "fs w src = Some (File b)" "\<not> denied w src" "src \<noteq> path_join d f"
    and "\<And>t. fs w (path_join d f) \<noteq> Some (Link t)"
  shows "shutil_copy src d w =
           (case write_file (path_join d f) b w of
              (Inl e, w') \<Rightarrow> (Inl e, w')
            | (Inr u, w') \<Rightarrow> (Inr (path_join d f), w'))"
proof -
  have 1: "follow 40 (fs w) src = Some src"
    using assms(4) by (simp add: follow_nonlink)
  have 2: "follow 40 (fs w) (path_join d f) = Some (path_join d f)"
    using assms(7) by (simp add: follow_nonlink)
  show ?thesis
    using assms(3,4,5,6) isdir_Dir[OF assms(1)]
    by (simp add: shutil_copy_def Let_def 1 2)
qed

lemma shutil_copy_new:
  assumes "fs w d = Some (Dir ns)" "\<not> denied w d" "no_trailing_slash d" "plain f"
    and "basename src = f" "fs w src = Some (File b)" "\<not> denied w src"
    and "fs w (path_join d f) = None"
  shows "shutil_copy src d w =
           (Inr (path_join d f), w\<lparr>fs := (fs w)(d \<mapsto> Dir (ns @ [f]), path_join d f \<mapsto> File b)\<rparr>)"
proof -
  have ne: "src \<noteq> path_join d f" using assms(6,8) by auto
  have nl: "\<And>t. fs w (path_join d f) \<noteq> Some (Link t)" using assms(8) by simp
  show ?thesis
    by (simp add: shutil_copy_into_dir[OF assms(1,4,5,6,7) ne nl]
          write_file_new[OF assms(1,2,4,3,8)])
qed

lemma shutil_copy_over:
  assumes "fs w d = Some (Dir ns)" "plain f"
    and "basename src = f" "fs w src = Some (File b)" "\<not> denied w src"
    and "fs w (path_join d f) = Some (File c)" "\<not> denied w (path_join d f)"
    and "src \<noteq> path_join d f"
  shows "shutil_copy src d w =
           (Inr (path_join d f), w\<lparr>fs := (fs w)(path_join d f \<mapsto> File b)\<rparr>)"
proof -
  have nl: "\<And>t. fs w (path_join d f) \<noteq> Some (Link t)" using assms(6) by simp
  show ?thesis
    by (simp add: shutil_copy_into_dir[OF assms(1,2,3,4,5,8) nl]
          write_file_over[OF assms(6,7)])
qed

subsection \<open>Facts about the copies into the staging directory\<close>

lemma first_source_Cons:
  "first_source ((p, f) # rest) g = (if g = f then Some p else first_source rest g)"
  by (simp add: first_source_def)

lemma first_source_mem: "first_source occ g = Some p \<Longrightarrow> (p, g) \<in> set occ"
  unfolding first_source_def by (drule map_of_SomeD) auto

lemma sources_ok_Cons:
  "sources_ok store ((p, f) # rest) w \<longleftrightarrow>
     (plain f \<and> (\<exists>b. fs w (path_join p f) = Some (File b)) \<and>
      path_join p f \<noteq> store \<and> (\<forall>g. plain g \<longrightarrow> path_join p f \<noteq> path_join store g)) \<and>
     sources_ok store rest w"
  by (simp add: sources_ok_def)

lemma sources_ok_frame:
  assumes "sources_ok store occ w"
    and "\<And>q. q \<noteq> store \<Longrightarrow> (\<And>g. plain g \<Longrightarrow> q \<noteq> path_join store g) \<Longrightarrow> fs w' q = fs w q"
  shows "sources_ok store occ w'"
  using assms unfolding sources_ok_def by (auto split: prod.splits)

lemma join_eq_dirD: "path_join d f = d \<Longrightarrow> plain f \<Longrightarrow> False"
  using join_neq_dir by blast

lemma staged_File:
  assumes "staging_ok store w" "plain g" "fs w (path_join store g) = Some n"
  shows "\<exists>c. n = File c"
proof -
  from assms(1,2) have "case fs w (path_join store g) of
                             None \<Rightarrow> True | Some (File c) \<Rightarrow> True | Some _ \<Rightarrow> False"
    unfolding staging_ok_def by blast
  then show ?thesis using assms(3) by (cases n) simp_all
qed

lemma staging_ok_add:
  assumes ok: "staging_ok store w" and f: "plain f" and ns: "fs w store = Some (Dir ns)"
  shows "staging_ok store (w\<lparr>fs := (fs w)(store \<mapsto> Dir (ns @ [f]), path_join store f \<mapsto> File b)\<rparr>)"
  using ok join_neq_dir[OF f, of store]
  unfolding staging_ok_def by (auto split: option.splits node.splits dest: join_eq_dirD)

lemma copy_pairs_result:
  assumes "staging_ok store w" "sources_ok store occ w"
  shows "\<exists>w'. copy_pairs store occ w = (Inr (), w') \<and> staging_ok store w' \<and>
           environ w' = environ w \<and>
           (\<forall>g. plain g \<longrightarrow> fs w' (path_join store g) =
              (case fs w (path_join store g) of
                 Some n \<Rightarrow> Some n
               | None \<Rightarrow> (case first_source occ g of
                            Some p \<Rightarrow> fs w (path_join p g)
                          | None \<Rightarrow> None))) \<and>
           (\<forall>q. q \<noteq> store \<longrightarrow> (\<forall>g. plain g \<longrightarrow> q \<noteq> path_join store g) \<longrightarrow> fs w' q = fs w q)"
  using assms
proof (induction occ arbitrary: w)
  case Nil
  then show ?case by (auto simp: first_source_def split: option.splits)
next
  case (Cons a rest)
  obtain p f where a: "a = (p, f)" by (cases a)
  from Cons.prems(2) obtain b where f: "plain f" and src: "fs w (path_join p f) = Some (File b)"
    and ns1: "path_join p f \<noteq> store"
    and ns2: "\<And>g. plain g \<Longrightarrow> path_join p f \<noteq> path_join store g"
    and rest: "sources_ok store rest w"
    unfolding a sources_ok_Cons by blast
  from Cons.prems(1) obtain ns where dir: "fs w store = Some (Dir ns)"
    and nt: "no_trailing_slash store" and nd: "\<And>q. \<not> denied w q"
    unfolding staging_ok_def by blast
  show ?case
  proof (cases "fs w (path_join store f)")
    case (Some n)
    from staged_File[OF Cons.prems(1) f Some] obtain c where n: "n = File c" ..
    have skip: "copy_pairs store (a # rest) w = copy_pairs store rest w"
      using isfile_File[of w "path_join store f" c] Some n by (simp add: a)
    from Cons.IH[OF Cons.prems(1) rest] obtain w' where
      r: "copy_pairs store rest w = (Inr (), w')" "staging_ok store w'" "environ w' = environ w"
      and st: "\<And>g. plain g \<Longrightarrow> fs w' (path_join store g) =
              (case fs w (path_join store g) of
                 Some n \<Rightarrow> Some n
               | None \<Rightarrow> (case first_source rest g of
                            Some p \<Rightarrow> fs w (path_join p g)
                          | None \<Rightarrow> None))"
      and fr: "\<And>q. q \<noteq> store \<Longrightarrow> (\<forall>g. plain g \<longrightarrow> q \<noteq> path_join store g) \<Longrightarrow> fs w' q = fs w q"
      by blast
    have "\<forall>g. plain g \<longrightarrow> fs w' (path_join store g) =
              (case fs w (path_join store g) of
                 Some n \<Rightarrow> Some n
               | None \<Rightarrow> (case first_source (a # rest) g of
                            Some p \<Rightarrow> fs w (path_join p g)
                          | None \<Rightarrow> None))"
      using st Some by (auto simp: a first_source_Cons split: option.splits)
    with r fr skip show ?thesis by auto
  next
    case None
    let ?w1 = "w\<lparr>fs := (fs w)(store \<mapsto> Dir (ns @ [f]), path_join store f \<mapsto> File b)\<rparr>"
    have cp: "shutil_copy (path_join p f) store w = (Inr (path_join store f), ?w1)"
      by (rule shutil_copy_new[OF dir nd nt f basename_join[OF f] src nd None])
    have step: "copy_pairs store (a # rest) w = copy_pairs store rest ?w1"
      using isfile_None[OF None] cp by (simp add: a)
    have ok1: "staging_ok store ?w1"
      by (rule staging_ok_add[OF Cons.prems(1) f dir])
    have fr1: "fs ?w1 q = fs w q" if "q \<noteq> store" "\<And>g. plain g \<Longrightarrow> q \<noteq> path_join store g" for q
      using that f by auto
    have rest1: "sources_ok store rest ?w1"
      by (rule sources_ok_frame[OF rest]) (use fr1 in blast)
    from Cons.IH[OF ok1 rest1] obtain w' where
      r: "copy_pairs store rest ?w1 = (Inr (), w')" "staging_ok store w'" "environ w' = environ w"
      and st: "\<And>g. plain g \<Longrightarrow> fs w' (path_join store g) =
              (case fs ?w1 (path_join store g) of
                 Some n \<Rightarrow> Some n
               | None \<Rightarrow> (case first_source rest g of
                            Some p \<Rightarrow> fs ?w1 (path_join p g)
                          | None \<Rightarrow> None))"
      and fr: "\<And>q. q \<noteq> store \<Longrightarrow> (\<forall>g. plain g \<longrightarrow> q \<noteq> path_join store g) \<Longrightarrow> fs w' q = fs ?w1 q"
      by auto
    have stg: "fs w' (path_join store g) =
              (case fs w (path_join store g) of
                 Some n \<Rightarrow> Some n
               | None \<Rightarrow> (case first_source (a # rest) g of
                            Some p \<Rightarrow> fs w (path_join p g)
                          | None \<Rightarrow> None))" if g: "plain g" for g
    proof (cases "g = f")
      case True
      then show ?thesis using st[OF g] None src by (simp add: a first_source_Cons)
    next
      case False
      have ne: "path_join store g \<noteq> path_join store f"
        using join_inj[OF g f] False by blast
      have same: "fs ?w1 (path_join store g) = fs w (path_join store g)"
        using ne join_neq_dir[OF g, of store] by simp
      show ?thesis
      proof (cases "fs w (path_join store g)")
        case (Some n)
        then show ?thesis using st[OF g] same by simp
      next
        case N: None
        show ?thesis
        proof (cases "first_source rest g")
          case None
          then show ?thesis using st[OF g] same N False by (simp add: a first_source_Cons)
        next
          case (Some p')
          from first_source_mem[OF Some] rest have
            "path_join p' g \<noteq> store" "\<And>h. plain h \<Longrightarrow> path_join p' g \<noteq> path_join store h"
            unfolding sources_ok_def by auto
          then have "fs ?w1 (path_join p' g) = fs w (path_join p' g)"
            using fr1 by blast
          then show ?thesis using st[OF g] same N False Some by (simp add: a first_source_Cons)
        qed
      qed
    qed
    have frw: "fs w' q = fs w q" if "q \<noteq> store" "\<forall>g. plain g \<longrightarrow> q \<noteq> path_join store g" for q
      using fr[OF that] fr1[of q] that by auto
    from r stg frw step show ?thesis by auto
  qed
qed

lemma copy_new_pairs: "copy_new store path names w = copy_pairs store (map (Pair path) names) w"
  by (induction names arbitrary: w) (auto split: prod.splits sum.splits)

lemma copy_pairs_append:
  "copy_pairs store (xs @ ys) w =
     (case copy_pairs store xs w of
        (Inl e, w') \<Rightarrow> (Inl e, w')
      | (Inr u, w') \<Rightarrow> copy_pairs store ys w')"
  by (induction xs arbitrary: w) (auto split: prod.splits sum.splits)

lemma flatten_dir_pairs:
  "flatten_dir L store t w = copy_pairs store (flatten_dir_order L t) w"
  by (cases t)
     (auto simp: flatten_dir_def flatten_dir_order_def seq_def copy_new_pairs copy_pairs_append
           split: prod.splits sum.splits)

lemma flatten_pairs: "flatten L store walk w = copy_pairs store (flatten_order L walk) w"
  unfolding flatten_order_def
  by (induction walk arbitrary: w)
     (auto simp: flatten_dir_pairs copy_pairs_append split: prod.splits sum.splits)

lemma merge_walk_pairs: "merge_walk L store walk w = copy_pairs store (merge_order L walk) w"
  unfolding merge_order_def
  by (induction walk arbitrary: w)
     (auto simp: copy_new_pairs copy_pairs_append split: prod.splits sum.splits)

lemma first_source_split:
  "f \<notin> snd ` set xs \<Longrightarrow> first_source (xs @ (p, f) # ys) f = Some p"
  by (induction xs) (auto simp: first_source_def)

text \<open>
  Claim C7. \<open>flatten\<close> runs over any walk of a tree of regular files into a fresh staging
  directory without raising, and leaves under each name the bytes of the first file of
  that name in the order of the walk (within a directory \<open>*.dll\<close>, then \<open>*.lib\<close>, then
  \<open>*.bc\<close>), the directories whose path contains \<open>jre\<close> or \<open>GFExperience\<close> left out: of
  two files of one name at different places, the later one is skipped and the earlier
  one's bytes are what the staging directory holds.
\<close>

theorem flatten_first_wins:
  assumes "staging_ok store w"
    and "\<forall>g. plain g \<longrightarrow> fs w (path_join store g) = None"
    and "sources_ok store (flatten_order L walk) w"
  shows "\<exists>w'. flatten L store walk w = (Inr (), w') \<and>
           (\<forall>g. plain g \<longrightarrow> fs w' (path_join store g) =
              (case first_source (flatten_order L walk) g of
                 Some p \<Rightarrow> fs w (path_join p g)
               | None \<Rightarrow> None)) \<and>
           (\<forall>xs p1 f ys p2.
              flatten_order L walk = xs @ (p1, f) # ys \<and> f \<notin> snd ` set xs \<and> (p2, f) \<in> set ys
              \<longrightarrow> fs w' (path_join store f) = fs w (path_join p1 f))"
proof -
  from copy_pairs_result[OF assms(1,3)] obtain w' where
    r: "copy_pairs store (flatten_order L walk) w = (Inr (), w')"
    and st: "\<And>g. plain g \<Longrightarrow> fs w' (path_join store g) =
              (case fs w (path_join store g) of
                 Some n \<Rightarrow> Some n
               | None \<Rightarrow> (case first_source (flatten_order L walk) g of
                            Some p \<Rightarrow> fs w (path_join p g)
                          | None \<Rightarrow> None))"
    by blast
  have st': "fs w' (path_join store g) =
              (case first_source (flatten_order L walk) g of
                 Some p \<Rightarrow> fs w (path_join p g)
               | None \<Rightarrow> None)" if "plain g" for g
    using st[OF that] assms(2) that by simp
  have pair: "fs w' (path_join store f) = fs w (path_join p1 f)"
    if "flatten_order L walk = xs @ (p1, f) # ys" "f \<notin> snd ` set xs" for xs p1 f ys
  proof -
    have "(p1, f) \<in> set (flatten_order L walk)" using that(1) by simp
    with assms(3) have "plain f" unfolding sources_ok_def by auto
    from st'[OF this] first_source_split[OF that(2), of p1 ys] that(1)
    show ?thesis by simp
  qed
  from r st' pair show ?thesis
    by (simp only: flatten_pairs) blast
qed

theorem flatten_first_wins_witness:
  "staging_ok ''st'' tree_world \<and>
   sources_ok ''st'' (flatten_order example_stdlib tree_walk) tree_world \<and>
   flatten_order example_stdlib tree_walk
     = [(''x'', ''a.dll''), (''x'', ''b.lib''), (''x/sub'', ''a.dll''), (''x/sub'', ''c.bc'')] \<and>
   fs tree_world ''x/a.dll'' = Some (File ''A1'') \<and>
   fs tree_world ''x/sub/a.dll'' = Some (File ''A2'') \<and>
   (\<exists>w'. flatten example_stdlib ''st'' tree_walk tree_world = (Inr (), w') \<and>
         fs w' ''st/a.dll'' = Some (File ''A1'') \<and>
         fs w' ''st/b.lib'' = Some (File ''B'') \<and>
         fs w' ''st/c.bc'' = Some (File ''C'') \<and>
         fs w' ''st/j.dll'' = None \<and>
         fs w' ''st/readme.txt'' = None)"
proof -
  have ord: "flatten_order example_stdlib tree_walk
     = [(''x'', ''a.dll''), (''x'', ''b.lib''), (''x/sub'', ''a.dll''), (''x/sub'', ''c.bc'')]"
    by (simp add: flatten_order_def flatten_dir_order_def tree_walk_def fnmatch_filter_def
          example_stdlib_def)
  have pj: "path_join ''st'' g = ''st/'' @ g" if "plain g" for g
    using that by (simp add: path_join_plain)
  have empty: "\<forall>g. plain g \<longrightarrow> fs tree_world (path_join ''st'' g) = None"
    by (auto simp: pj tree_world_def)
  have stg: "staging_ok ''st'' tree_world"
    unfolding staging_ok_def using empty
    by (auto simp: no_trailing_slash_def tree_world_def)
  have src: "sources_ok ''st'' (flatten_order example_stdlib tree_walk) tree_world"
    unfolding ord sources_ok_def
    by (auto simp: pj plain_def path_join_def tree_world_def)
  have a1: "fs tree_world ''x/a.dll'' = Some (File ''A1'')"
    and a2: "fs tree_world ''x/sub/a.dll'' = Some (File ''A2'')"
    by (simp_all add: tree_world_def)
  from flatten_first_wins[OF stg empty src] obtain w' where
    r: "flatten example_stdlib ''st'' tree_walk tree_world = (Inr (), w')"
    and st: "\<And>g. plain g \<Longrightarrow> fs w' (path_join ''st'' g) =
              (case first_source (flatten_order example_stdlib tree_walk) g of
                 Some p \<Rightarrow> fs tree_world (path_join p g)
               | None \<Rightarrow> None)"
    by blast
  have "fs w' ''st/a.dll'' = Some (File ''A1'')"
    using st[of "''a.dll''"] by (simp add: ord first_source_def plain_def path_join_def tree_world_def)
  moreover have "fs w' ''st/b.lib'' = Some (File ''B'')"
    using st[of "''b.lib''"] by (simp add: ord first_source_def plain_def path_join_def tree_world_def)
  moreover have "fs w' ''st/c.bc'' = Some (File ''C'')"
    using st[of "''c.bc''"] by (simp add: ord first_source_def plain_def path_join_def tree_world_def)
  moreover have "fs w' ''st/j.dll'' = None"
    using st[of "''j.dll''"] by (simp add: ord first_source_def plain_def path_join_def tree_world_def)
  moreover have "fs w' ''st/readme.txt'' = None"
    using st[of "''readme.txt''"] by (simp add: ord first_source_def plain_def path_join_def tree_world_def)
  ultimately show ?thesis using stg src ord a1 a2 r by blast
qed

subsection \<open>Facts about \<open>WindowsExtractor.extract\<close>\<close>

lemma seq_Inl: "m w = (Inl e, w') \<Longrightarrow> seq m k w = (Inl e, w')"
  by (simp add: seq_def)

lemma seq_Inr: "m w = (Inr x, w') \<Longrightarrow> seq m k w = k x w'"
  by (simp add: seq_def)

lemma check_nvt_path_world: "check_nvt_path n w = (r, w') \<Longrightarrow> w' = w"
  by (auto simp: check_nvt_path_def split: option.splits if_splits)

lemma extract_block_unfold:
  "extract_block L S self tmpd w1 =
     (case unpack S self tmpd w1 of
        (Inl e, w2) \<Rightarrow> (Inl e, w2)
      | (Inr u, wa) \<Rightarrow>
          (case check_nvt_path (nvt_path_of self wa) wa of
             (Inl e, w2) \<Rightarrow> (Inl e, w2)
           | (Inr u, wa') \<Rightarrow>
               (case os_mkdir (path_join tmpd ''DLLs'') wa' of
                  (Inl e, w2) \<Rightarrow> (Inl e, w2)
                | (Inr u, wb) \<Rightarrow>
                    (case flatten L (path_join tmpd ''DLLs'')
                            (os_walk S (path_join tmpd ''__extracted'') wb) wb of
                       (Inl e, w2) \<Rightarrow> (Inl e, w2)
                     | (Inr u, wc) \<Rightarrow>
                         (case merge_nvtoolsext L S (path_join tmpd ''DLLs'') (nvt_path_of self wa) wc of
                            (Inl e, w2) \<Rightarrow> (Inl e, w2)
                          | (Inr u, wd) \<Rightarrow>
                              WindowsExtractor_copy L self (path_join tmpd ''DLLs'') wd)))))"
  by (simp add: extract_block_def seq_def Let_def split: prod.splits sum.splits)

lemma extract_from_block:
  assumes "mkdtemp S w = (Inr tmpd, w1)"
    and "extract_block L S self tmpd w1 = (r, w2)"
    and "cleanup S tmpd w2 = (Inr (), w3)"
  shows "WindowsExtractor_extract L S self w =
           (if r = Inl PermissionError then (Inr (), w3) else (r, w3))"
  using assms
  by (auto simp: WindowsExtractor_extract_def with_tempdir_def split: sum.splits error.splits)

lemma extract_cleanup_PermissionError:
  assumes "mkdtemp S w = (Inr tmpd, w1)"
    and "extract_block L S self tmpd w1 = (r, w2)"
    and "cleanup S tmpd w2 = (Inl PermissionError, w3)"
  shows "WindowsExtractor_extract L S self w = (Inr (), w3)"
  using assms
  by (auto simp: WindowsExtractor_extract_def with_tempdir_def split: sum.splits error.splits)

text \<open>
  Claim C6. Whichever step of the body of the \<open>with\<close> statement raises
  \<open>PermissionError\<close> (the unpacking, the creation of the staging directory, the
  flattening walk, the NvToolsExt merge or the copy into the output directory), the body
  ends with that error and \<open>extract\<close> returns normally, provided the removal of the
  temporary directory succeeds or itself raises \<open>PermissionError\<close>.
\<close>

theorem extract_swallows_PermissionError:
  assumes "mkdtemp S w = (Inr tmpd, w1)"
    and "store = path_join tmpd ''DLLs''"
    and "extractdir = path_join tmpd ''__extracted''"
    and "unpack S self tmpd w1 = (Inl PermissionError, w2) \<or>
       (\<exists>wa. unpack S self tmpd w1 = (Inr (), wa) \<and>
          check_nvt_path (nvt_path_of self wa) wa = (Inr (), wa) \<and>
          (os_mkdir store wa = (Inl PermissionError, w2) \<or>
           (\<exists>wb. os_mkdir store wa = (Inr (), wb) \<and>
              (flatten L store (os_walk S extractdir wb) wb = (Inl PermissionError, w2) \<or>
               (\<exists>wc. flatten L store (os_walk S extractdir wb) wb = (Inr (), wc) \<and>
                  (merge_nvtoolsext L S store (nvt_path_of self wa) wc = (Inl PermissionError, w2) \<or>
                   (\<exists>wd. merge_nvtoolsext L S store (nvt_path_of self wa) wc = (Inr (), wd) \<and>
                      WindowsExtractor_copy L self store wd = (Inl PermissionError, w2))))))))"
    and "cleanup S tmpd w2 = (c, w3)"
    and "c = Inr () \<or> c = Inl PermissionError"
  shows "extract_block L S self tmpd w1 = (Inl PermissionError, w2) \<and>
         WindowsExtractor_extract L S self w = (Inr (), w3)"
proof -
  have blk: "extract_block L S self tmpd w1 = (Inl PermissionError, w2)"
    using assms(4) unfolding extract_block_unfold assms(2,3)
    by (elim disjE exE conjE) simp_all
  from assms(6) show ?thesis
  proof
    assume "c = Inr ()"
    with assms(5) have "cleanup S tmpd w2 = (Inr (), w3)" by simp
    from extract_from_block[OF assms(1) blk this] blk show ?thesis by simp
  next
    assume "c = Inl PermissionError"
    with assms(5) have "cleanup S tmpd w2 = (Inl PermissionError, w3)" by simp
    from extract_cleanup_PermissionError[OF assms(1) blk this] blk show ?thesis by simp
  qed
qed

lemma ex_unpack:
  "unpack (example_sys None locked) (example_self False) ''tmp'' w =
     (case os_mkdir ''__extracted'' w of
        (Inl e, w') \<Rightarrow> (Inl e, w')
      | (Inr u, w') \<Rightarrow>
          (Inr (), w'\<lparr>fs := (fs w')(''tmp/__extracted'' \<mapsto> Dir [''a.dll'', ''sub''],
                                      ''tmp/__extracted/a.dll'' \<mapsto> File ''A1'',
                                      ''tmp/__extracted/sub'' \<mapsto> Dir [''a.dll''],
                                      ''tmp/__extracted/sub/a.dll'' \<mapsto> File ''A2''),
                         denied := locked\<rparr>))"
  by (simp add: unpack_def Let_def seq_def example_sys_def example_self_def split: prod.splits sum.splits)

theorem extract_swallows_PermissionError_witness:
  "fst (mkdtemp (example_sys None (\<lambda>p. p = ''tmp/__extracted/a.dll'')) (win_world Map.empty)) = Inr ''tmp'' \<and>
   fst (extract_block example_stdlib (example_sys None (\<lambda>p. p = ''tmp/__extracted/a.dll''))
          (example_self False) ''tmp''
          (snd (mkdtemp (example_sys None (\<lambda>p. p = ''tmp/__extracted/a.dll'')) (win_world Map.empty))))
     = Inl PermissionError \<and>
   fst (WindowsExtractor_extract example_stdlib (example_sys None (\<lambda>p. p = ''tmp/__extracted/a.dll''))
          (example_self False) (win_world Map.empty)) = Inr ()"
proof -
  let ?S = "example_sys None (\<lambda>p. p = ''tmp/__extracted/a.dll'')"
  let ?w = "win_world Map.empty"
  obtain w1 where m: "mkdtemp ?S ?w = (Inr ''tmp'', w1)"
    by (simp add: example_sys_def)
  have w1: "w1 = ?w\<lparr>fs := (fs ?w)(''tmp'' \<mapsto> Dir [])\<rparr>"
    using m by (simp add: example_sys_def)
  define wa where "wa = snd (unpack ?S (example_self False) ''tmp'' w1)"
  have fu: "fst (unpack ?S (example_self False) ''tmp'' w1) = Inr ()"
    by (simp add: ex_unpack w1 os_mkdir_def create_def lookup_dir_def dirname_def basename_def
          win_world_def numeral_eq_Suc)
  have u: "unpack ?S (example_self False) ''tmp'' w1 = (Inr (), wa)"
    using fu by (simp add: wa_def prod_eq_iff)
  have wa: "fs wa = (fs w1)([] \<mapsto> Dir [''__extracted''], ''__extracted'' \<mapsto> Dir [],
                  ''tmp/__extracted'' \<mapsto> Dir [''a.dll'', ''sub''],
                                      ''tmp/__extracted/a.dll'' \<mapsto> File ''A1'',
                                      ''tmp/__extracted/sub'' \<mapsto> Dir [''a.dll''],
                                      ''tmp/__extracted/sub/a.dll'' \<mapsto> File ''A2'')"
         "denied wa = (\<lambda>p. p = ''tmp/__extracted/a.dll'')" "environ wa = Map.empty"
    unfolding wa_def
    by (simp_all add: ex_unpack w1 os_mkdir_def create_def lookup_dir_def dirname_def basename_def
          win_world_def numeral_eq_Suc)
  have n: "check_nvt_path (nvt_path_of (example_self False) wa) wa = (Inr (), wa)"
    by (simp add: check_nvt_path_def nvt_path_of_def wa example_self_def)
  define wb where "wb = snd (os_mkdir ''tmp/DLLs'' wa)"
  have fm: "fst (os_mkdir ''tmp/DLLs'' wa) = Inr ()"
    by (simp add: os_mkdir_def create_def lookup_dir_def dirname_def basename_def wa w1
          win_world_def numeral_eq_Suc)
  have mk: "os_mkdir ''tmp/DLLs'' wa = (Inr (), wb)"
    using fm by (simp add: wb_def prod_eq_iff)
  have wb: "fs wb = (fs wa)(''tmp'' \<mapsto> Dir [''DLLs''], ''tmp/DLLs'' \<mapsto> Dir [])"
         "denied wb = (\<lambda>p. p = ''tmp/__extracted/a.dll'')"
    unfolding wb_def
    by (simp_all add: os_mkdir_def create_def lookup_dir_def dirname_def basename_def wa w1
          win_world_def numeral_eq_Suc)
  have fl: "flatten example_stdlib ''tmp/DLLs'' (os_walk ?S ''tmp/__extracted'' wb) wb
              = (Inl PermissionError, wb)"
    by (simp add: example_sys_def flatten_dir_def seq_def fnmatch_filter_def example_stdlib_def
          isfile_def isdir_def stat_def shutil_copy_def Let_def wb wa w1 win_world_def
          numeral_eq_Suc path_join_def basename_def)
  obtain w3 where c: "cleanup ?S ''tmp'' wb = (Inr (), w3)"
    by (simp add: example_sys_def)
  have st: "''tmp/DLLs'' = path_join ''tmp'' ''DLLs''"
    and ed: "''tmp/__extracted'' = path_join ''tmp'' ''__extracted''"
    by (simp_all add: path_join_def)
  have stage: "unpack ?S (example_self False) ''tmp'' w1 = (Inl PermissionError, wb) \<or>
       (\<exists>wa. unpack ?S (example_self False) ''tmp'' w1 = (Inr (), wa) \<and>
          check_nvt_path (nvt_path_of (example_self False) wa) wa = (Inr (), wa) \<and>
          (os_mkdir ''tmp/DLLs'' wa = (Inl PermissionError, wb) \<or>
           (\<exists>wb'. os_mkdir ''tmp/DLLs'' wa = (Inr (), wb') \<and>
              (flatten example_stdlib ''tmp/DLLs'' (os_walk ?S ''tmp/__extracted'' wb') wb' = (Inl PermissionError, wb) \<or>
               (\<exists>wc. flatten example_stdlib ''tmp/DLLs'' (os_walk ?S ''tmp/__extracted'' wb') wb' = (Inr (), wc) \<and>
                  (merge_nvtoolsext example_stdlib ?S ''tmp/DLLs'' (nvt_path_of (example_self False) wa) wc = (Inl PermissionError, wb) \<or>
                   (\<exists>wd. merge_nvtoolsext example_stdlib ?S ''tmp/DLLs'' (nvt_path_of (example_self False) wa) wc = (Inr (), wd) \<and>
                      WindowsExtractor_copy example_stdlib (example_self False) ''tmp/DLLs'' wd = (Inl PermissionError, wb))))))))"
    using u n mk fl by blast
  from extract_swallows_PermissionError[OF m st ed stage c] m
  show ?thesis by simp
qed

subsection \<open>Facts about the NvToolsExt step\<close>

lemma merge_order_dll: "(q, f) \<in> set (merge_order L walk) \<Longrightarrow> fnmatch L f ''*.dll''"
  by (auto simp: merge_order_def fnmatch_filter_def)

lemma extract_block_invalid_nvt:
  assumes "unpack S self tmpd w0 = (Inr (), w)"
    and "nvt_path_of self w = Some p"
    and "\<not> isdir w p"
  shows "extract_block L S self tmpd w0 = (Inl (ValueError nvt_invalid_msg), w)"
  using assms by (simp add: extract_block_unfold check_nvt_path_def)

text \<open>
  Claim C8. The path of the NvToolsExt step is the environment variable when it is set
  and the platform's default otherwise. When the unpacking succeeded and the path is not a
  directory, the body of the \<open>with\<close> statement raises the \<open>ValueError\<close> of line 283, and so
  does \<open>extract\<close> when the temporary directory is removed without error. A path that
  is a directory passes the check. With no path the merge leaves the world as it is.
  With a path, over any walk of regular files outside the staging directory, the merge
  does not raise, keeps every file the staging directory already holds, adds under each
  free name the first file of that name among those matching \<open>*.dll\<close>, and changes
  nothing outside the staging directory.
\<close>

theorem nvtoolsext_merge_step:
  "(environ w ''NVTOOLSEXT_INSTALL_PATH'' = Some v \<longrightarrow> nvt_path_of self w = Some v) \<and>
   (environ w ''NVTOOLSEXT_INSTALL_PATH'' = None \<longrightarrow> nvt_path_of self w = nvtoolsextpath self) \<and>
   (unpack S self tmpd w0 = (Inr (), w) \<and> nvt_path_of self w = Some p \<and> \<not> isdir w p \<longrightarrow>
      extract_block L S self tmpd w0 = (Inl (ValueError nvt_invalid_msg), w) \<and>
      (\<forall>wi wc. mkdtemp S wi = (Inr tmpd, w0) \<and> cleanup S tmpd w = (Inr (), wc) \<longrightarrow>
         WindowsExtractor_extract L S self wi = (Inl (ValueError nvt_invalid_msg), wc))) \<and>
   (isdir w p \<longrightarrow> check_nvt_path (Some p) w = (Inr (), w)) \<and>
   merge_nvtoolsext L S store None w = (Inr (), w) \<and>
   (staging_ok store w \<and> sources_ok store (merge_order L (os_walk S p w)) w \<longrightarrow>
      (\<exists>w'. merge_nvtoolsext L S store (Some p) w = (Inr (), w') \<and>
         (\<forall>g. plain g \<longrightarrow> fs w' (path_join store g) =
            (case fs w (path_join store g) of
               Some n \<Rightarrow> Some n
             | None \<Rightarrow> (case first_source (merge_order L (os_walk S p w)) g of
                          Some q \<Rightarrow> fs w (path_join q g)
                        | None \<Rightarrow> None))) \<and>
         (\<forall>g q. first_source (merge_order L (os_walk S p w)) g = Some q \<longrightarrow> fnmatch L g ''*.dll'') \<and>
         (\<forall>x. x \<noteq> store \<longrightarrow> (\<forall>g. plain g \<longrightarrow> x \<noteq> path_join store g) \<longrightarrow> fs w' x = fs w x)))"
proof -
  have 1: "environ w ''NVTOOLSEXT_INSTALL_PATH'' = Some v \<longrightarrow> nvt_path_of self w = Some v"
    by (simp add: nvt_path_of_def)
  have 2: "environ w ''NVTOOLSEXT_INSTALL_PATH'' = None \<longrightarrow> nvt_path_of self w = nvtoolsextpath self"
    by (simp add: nvt_path_of_def)
  have 3: "unpack S self tmpd w0 = (Inr (), w) \<and> nvt_path_of self w = Some p \<and> \<not> isdir w p \<longrightarrow>
      extract_block L S self tmpd w0 = (Inl (ValueError nvt_invalid_msg), w) \<and>
      (\<forall>wi wc. mkdtemp S wi = (Inr tmpd, w0) \<and> cleanup S tmpd w = (Inr (), wc) \<longrightarrow>
         WindowsExtractor_extract L S self wi = (Inl (ValueError nvt_invalid_msg), wc))"
  proof (intro impI, elim conjE)
    assume a: "unpack S self tmpd w0 = (Inr (), w)" "nvt_path_of self w = Some p" "\<not> isdir w p"
    have blk: "extract_block L S self tmpd w0 = (Inl (ValueError nvt_invalid_msg), w)"
      by (rule extract_block_invalid_nvt[OF a])
    have "WindowsExtractor_extract L S self wi = (Inl (ValueError nvt_invalid_msg), wc)"
      if "mkdtemp S wi = (Inr tmpd, w0)" "cleanup S tmpd w = (Inr (), wc)" for wi wc
      using extract_from_block[OF that(1) blk that(2)] by simp
    with blk show "extract_block L S self tmpd w0 = (Inl (ValueError nvt_invalid_msg), w) \<and>
      (\<forall>wi wc. mkdtemp S wi = (Inr tmpd, w0) \<and> cleanup S tmpd w = (Inr (), wc) \<longrightarrow>
         WindowsExtractor_extract L S self wi = (Inl (ValueError nvt_invalid_msg), wc))"
      by blast
  qed
  have 4: "isdir w p \<longrightarrow> check_nvt_path (Some p) w = (Inr (), w)"
    by (simp add: check_nvt_path_def)
  have 5: "merge_nvtoolsext L S store None w = (Inr (), w)"
    by (simp add: merge_nvtoolsext_def)
  have 6: "staging_ok store w \<and> sources_ok store (merge_order L (os_walk S p w)) w \<longrightarrow>
      (\<exists>w'. merge_nvtoolsext L S store (Some p) w = (Inr (), w') \<and>
         (\<forall>g. plain g \<longrightarrow> fs w' (path_join store g) =
            (case fs w (path_join store g) of
               Some n \<Rightarrow> Some n
             | None \<Rightarrow> (case first_source (merge_order L (os_walk S p w)) g of
                          Some q \<Rightarrow> fs w (path_join q g)
                        | None \<Rightarrow> None))) \<and>
         (\<forall>g q. first_source (merge_order L (os_walk S p w)) g = Some q \<longrightarrow> fnmatch L g ''*.dll'') \<and>
         (\<forall>x. x \<noteq> store \<longrightarrow> (\<forall>g. plain g \<longrightarrow> x \<noteq> path_join store g) \<longrightarrow> fs w' x = fs w x))"
  proof (intro impI, elim conjE)
    assume ok: "staging_ok store w" "sources_ok store (merge_order L (os_walk S p w)) w"
    have dll: "\<forall>g q. first_source (merge_order L (os_walk S p w)) g = Some q \<longrightarrow> fnmatch L g ''*.dll''"
      by (auto dest!: first_source_mem merge_order_dll)
    from copy_pairs_result[OF ok] dll
    show "\<exists>w'. merge_nvtoolsext L S store (Some p) w = (Inr (), w') \<and>
         (\<forall>g. plain g \<longrightarrow> fs w' (path_join store g) =
            (case fs w (path_join store g) of
               Some n \<Rightarrow> Some n
             | None \<Rightarrow> (case first_source (merge_order L (os_walk S p w)) g of
                          Some q \<Rightarrow> fs w (path_join q g)
                        | None \<Rightarrow> None))) \<and>
         (\<forall>g q. first_source (merge_order L (os_walk S p w)) g = Some q \<longrightarrow> fnmatch L g ''*.dll'') \<and>
         (\<forall>x. x \<noteq> store \<longrightarrow> (\<forall>g. plain g \<longrightarrow> x \<noteq> path_join store g) \<longrightarrow> fs w' x = fs w x)"
      by (simp only: merge_nvtoolsext_def option.case merge_walk_pairs) blast
  qed
  from 1 2 3 4 5 6 show ?thesis by (intro conjI)
qed

theorem nvtoolsext_merge_step_witness:
  "nvt_path_of ((example_self False)\<lparr>nvtoolsextpath := Some ''nvt''\<rparr>)
      (win_world [''NVTOOLSEXT_INSTALL_PATH'' \<mapsto> ''notadir'']) = Some ''notadir'' \<and>
   fst (WindowsExtractor_extract example_stdlib (example_sys None (\<lambda>p. False))
          ((example_self False)\<lparr>nvtoolsextpath := Some ''nvt''\<rparr>)
          (win_world [''NVTOOLSEXT_INSTALL_PATH'' \<mapsto> ''notadir'']))
     = Inl (ValueError nvt_invalid_msg) \<and>
   staging_ok ''st'' (win_world Map.empty) \<and>
   sources_ok ''st''
     (merge_order example_stdlib (os_walk (example_sys None (\<lambda>p. False)) ''nvt'' (win_world Map.empty)))
     (win_world Map.empty) \<and>
   fs (win_world Map.empty) ''st/a.dll'' = Some (File ''A1'') \<and>
   fs (win_world Map.empty) ''nvt/a.dll'' = Some (File ''other'') \<and>
   (\<exists>w'. merge_nvtoolsext example_stdlib (example_sys None (\<lambda>p. False)) ''st'' (Some ''nvt'')
            (win_world Map.empty) = (Inr (), w') \<and>
         fs w' ''st/nvToolsExt64_1.dll'' = Some (File ''N'') \<and>
         fs w' ''st/a.dll'' = Some (File ''A1'') \<and>
         fs w' ''st/notes.txt'' = None)"
proof -
  let ?S = "example_sys None (\<lambda>p. False)"
  let ?self = "(example_self False)\<lparr>nvtoolsextpath := Some ''nvt''\<rparr>"
  let ?wi = "win_world [''NVTOOLSEXT_INSTALL_PATH'' \<mapsto> ''notadir'']"
  let ?we = "win_world Map.empty"
  \<comment> \<open>the environment variable wins over the default, and names a regular file\<close>
  have p0: "nvt_path_of ?self ?wi = Some ''notadir''"
    using nvtoolsext_merge_step[where w="?wi" and v="''notadir''" and self="?self"]
    by (simp add: win_world_def)
  define w0 where "w0 = snd (mkdtemp ?S ?wi)"
  have m: "mkdtemp ?S ?wi = (Inr ''tmp'', w0)"
    by (simp add: w0_def example_sys_def)
  have w0: "w0 = ?wi\<lparr>fs := (fs ?wi)(''tmp'' \<mapsto> Dir [])\<rparr>"
    by (simp add: w0_def example_sys_def)
  define w where "w = snd (unpack ?S ?self ''tmp'' w0)"
  have fu: "fst (unpack ?S ?self ''tmp'' w0) = Inr ()"
    by (simp add: unpack_def Let_def seq_def example_sys_def example_self_def w0 os_mkdir_def
          create_def lookup_dir_def dirname_def basename_def win_world_def numeral_eq_Suc)
  have u: "unpack ?S ?self ''tmp'' w0 = (Inr (), w)"
    using fu by (simp add: w_def prod_eq_iff)
  have w: "environ w = [''NVTOOLSEXT_INSTALL_PATH'' \<mapsto> ''notadir'']"
          "fs w ''notadir'' = Some (File ''x'')"
    unfolding w_def
    by (simp_all add: unpack_def Let_def seq_def example_sys_def example_self_def w0 os_mkdir_def
          create_def lookup_dir_def dirname_def basename_def win_world_def numeral_eq_Suc)
  have p1: "nvt_path_of ?self w = Some ''notadir''"
    by (simp add: nvt_path_of_def w)
  have nd: "\<not> isdir w ''notadir''"
    by (simp add: isdir_def stat_nonlink w)
  define wc where "wc = snd (cleanup ?S ''tmp'' w)"
  have c: "cleanup ?S ''tmp'' w = (Inr (), wc)"
    by (simp add: wc_def example_sys_def)
  from nvtoolsext_merge_step[where w=w and self="?self" and S="?S" and tmpd="''tmp''"
        and ?w0.0=w0 and p="''notadir''" and L=example_stdlib] u p1 nd m c
  have ex: "WindowsExtractor_extract example_stdlib ?S ?self ?wi = (Inl (ValueError nvt_invalid_msg), wc)"
    by blast
  \<comment> \<open>a valid directory: only the new \<open>*.dll\<close> is copied\<close>
  have ord: "merge_order example_stdlib (os_walk ?S ''nvt'' ?we)
               = [(''nvt'', ''nvToolsExt64_1.dll''), (''nvt'', ''a.dll'')]"
    by (simp add: merge_order_def example_sys_def fnmatch_filter_def example_stdlib_def)
  have pj: "path_join ''st'' g = ''st/'' @ g" if "plain g" for g
    using that by (simp add: path_join_plain)
  have stg: "staging_ok ''st'' ?we"
    unfolding staging_ok_def
    by (auto simp: pj no_trailing_slash_def win_world_def)
  have src: "sources_ok ''st'' (merge_order example_stdlib (os_walk ?S ''nvt'' ?we)) ?we"
    unfolding ord sources_ok_def
    by (auto simp: pj plain_def path_join_def win_world_def)
  from nvtoolsext_merge_step[where w="?we" and store="''st''" and L=example_stdlib and S="?S"
        and p="''nvt''"] stg src
  obtain w' where r: "merge_nvtoolsext example_stdlib ?S ''st'' (Some ''nvt'') ?we = (Inr (), w')"
    and st: "\<And>g. plain g \<Longrightarrow> fs w' (path_join ''st'' g) =
            (case fs ?we (path_join ''st'' g) of
               Some n \<Rightarrow> Some n
             | None \<Rightarrow> (case first_source (merge_order example_stdlib (os_walk ?S ''nvt'' ?we)) g of
                          Some q \<Rightarrow> fs ?we (path_join q g)
                        | None \<Rightarrow> None))"
    by blast
  note st = st[unfolded ord]
  have a: "fs w' ''st/nvToolsExt64_1.dll'' = Some (File ''N'')"
    using st[of "''nvToolsExt64_1.dll''"]
    by (simp add: first_source_def plain_def path_join_def win_world_def)
  have b: "fs w' ''st/a.dll'' = Some (File ''A1'')"
    using st[of "''a.dll''"]
    by (simp add: first_source_def plain_def path_join_def win_world_def)
  have d: "fs w' ''st/notes.txt'' = None"
    using st[of "''notes.txt''"]
    by (simp add: first_source_def plain_def path_join_def win_world_def)
  have e1: "fs ?we ''st/a.dll'' = Some (File ''A1'')" and e2: "fs ?we ''nvt/a.dll'' = Some (File ''other'')"
    by (simp_all add: win_world_def)
  from p0 ex stg src e1 e2 r a b d show ?thesis by auto
qed

subsection \<open>Facts about the loop of \<open>copy_files\<close>\<close>

lemma islink_Link: "fs w p = Some (Link t) \<Longrightarrow> islink w p"
  by (simp add: islink_def)

lemma islink_File: "fs w p = Some (File b) \<Longrightarrow> \<not> islink w p"
  by (simp add: islink_def)

lemma os_symlink_new:
  assumes "fs w d = Some (Dir ns)" "\<not> denied w d" "plain f" "no_trailing_slash d"
    and "fs w (path_join d f) = None"
  shows "os_symlink t (path_join d f) w =
           (Inr (), w\<lparr>fs := (fs w)(d \<mapsto> Dir (ns @ [f]), path_join d f \<mapsto> Link t)\<rparr>)"
  using assms by (simp add: os_symlink_def create_in_dir)

text \<open>One pass of the loop body on a path in good order.\<close>

lemma copy_loop_step:
  assumes out: "fs w (output_dir self) = Some (Dir ns)" "no_trailing_slash (output_dir self)"
    and nd: "\<forall>p. \<not> denied w p"
    and ok: "copy_sources_ok self [fn] w"
  shows "\<exists>n ns'. copy_loop self (fn # rest) w =
           copy_loop self rest
             (w\<lparr>fs := (fs w)(output_dir self \<mapsto> Dir ns', dest_of self fn \<mapsto> n)\<rparr>) \<and>
           (case fs w fn of Some (Link t) \<Rightarrow> n = Link t | Some (File b) \<Rightarrow> n = File b | _ \<Rightarrow> False)"
proof -
  let ?out = "output_dir self"
  let ?f = "basename fn"
  from ok have pl: "plain ?f" and cs: "case fs w fn of
           Some (Link t) \<Rightarrow> fs w (dest_of self fn) = None
         | Some (File b) \<Rightarrow>
             (case fs w (dest_of self fn) of
                None \<Rightarrow> True | Some (File c) \<Rightarrow> True | Some _ \<Rightarrow> False)
         | _ \<Rightarrow> False"
    and ne: "\<And>g. plain g \<Longrightarrow> fn \<noteq> path_join ?out g"
    by (auto simp: copy_sources_ok_def)
  have nd1: "\<not> denied w q" for q using nd by simp
  show ?thesis
  proof (cases "fs w fn")
    case None
    with cs show ?thesis by simp
  next
    case (Some nd0)
    show ?thesis
    proof (cases nd0)
      case (Link t)
      with Some cs have free: "fs w (path_join ?out ?f) = None" by (simp add: dest_of_def)
      have "copy_loop self (fn # rest) w =
              copy_loop self rest (w\<lparr>fs := (fs w)(?out \<mapsto> Dir (ns @ [?f]), dest_of self fn \<mapsto> Link t)\<rparr>)"
        using Some Link islink_Link[of w fn t]
          os_symlink_new[OF out(1) nd1 pl out(2) free, of t]
        by (simp add: os_readlink_def Let_def dest_of_def)
      then show ?thesis using Some Link by auto
    next
      case (File b)
      have src: "fs w fn = Some (File b)" using Some File by simp
      have nl: "\<not> islink w fn" using src by (rule islink_File)
      show ?thesis
      proof (cases "fs w (path_join ?out ?f)")
        case None
        have "shutil_copy fn ?out w =
                (Inr (path_join ?out ?f), w\<lparr>fs := (fs w)(?out \<mapsto> Dir (ns @ [?f]), path_join ?out ?f \<mapsto> File b)\<rparr>)"
          by (rule shutil_copy_new[OF out(1) nd1 out(2) pl refl src nd1 None])
        then have "copy_loop self (fn # rest) w =
              copy_loop self rest (w\<lparr>fs := (fs w)(?out \<mapsto> Dir (ns @ [?f]), dest_of self fn \<mapsto> File b)\<rparr>)"
          using nl by (simp add: dest_of_def)
        then show ?thesis using src by auto
      next
        case (Some n1)
        with cs src obtain c where c: "fs w (path_join ?out ?f) = Some (File c)"
          by (cases n1) (auto simp: dest_of_def)
        have "shutil_copy fn ?out w =
                (Inr (path_join ?out ?f), w\<lparr>fs := (fs w)(path_join ?out ?f \<mapsto> File b)\<rparr>)"
          by (rule shutil_copy_over[OF out(1) pl refl src nd1 c nd1 ne[OF pl]])
        moreover have "(fs w)(path_join ?out ?f \<mapsto> File b)
                 = (fs w)(?out \<mapsto> Dir ns, path_join ?out ?f \<mapsto> File b)"
          using out(1) by (auto simp: fun_eq_iff)
        ultimately have "copy_loop self (fn # rest) w =
              copy_loop self rest (w\<lparr>fs := (fs w)(?out \<mapsto> Dir ns, dest_of self fn \<mapsto> File b)\<rparr>)"
          using nl by (simp add: dest_of_def)
        then show ?thesis using src by auto
      qed
    next
      case (Dir x)
      with Some cs show ?thesis by simp
    qed
  qed
qed

lemma copy_sources_ok_Cons:
  "copy_sources_ok self (fn # rest) w \<longleftrightarrow>
     copy_sources_ok self [fn] w \<and> copy_sources_ok self rest w"
  by (auto simp: copy_sources_ok_def)

lemma dest_of_neq_out: "plain (basename fn) \<Longrightarrow> dest_of self fn \<noteq> output_dir self"
  unfolding dest_of_def by (rule join_neq_dir)

lemma dest_of_inj:
  "plain (basename a) \<Longrightarrow> plain (basename b) \<Longrightarrow> dest_of self a = dest_of self b
     \<Longrightarrow> basename a = basename b"
  unfolding dest_of_def by (rule join_inj)

lemma copy_sources_ok_frame:
  assumes "copy_sources_ok self fps w"
    and "\<And>fn. fn \<in> set fps \<Longrightarrow> fs w' fn = fs w fn"
    and "\<And>fn. fn \<in> set fps \<Longrightarrow> fs w' (dest_of self fn) = fs w (dest_of self fn)"
  shows "copy_sources_ok self fps w'"
  unfolding copy_sources_ok_def
proof
  fix fn assume mem: "fn \<in> set fps"
  from assms(1) mem have "plain (basename fn) \<and> fn \<noteq> output_dir self \<and>
        (\<forall>g. plain g \<longrightarrow> fn \<noteq> path_join (output_dir self) g) \<and>
        (case fs w fn of
           Some (Link t) \<Rightarrow> fs w (dest_of self fn) = None
         | Some (File b) \<Rightarrow>
             (case fs w (dest_of self fn) of
                None \<Rightarrow> True | Some (File c) \<Rightarrow> True | Some _ \<Rightarrow> False)
         | _ \<Rightarrow> False)"
    unfolding copy_sources_ok_def by blast
  then show "plain (basename fn) \<and> fn \<noteq> output_dir self \<and>
        (\<forall>g. plain g \<longrightarrow> fn \<noteq> path_join (output_dir self) g) \<and>
        (case fs w' fn of
           Some (Link t) \<Rightarrow> fs w' (dest_of self fn) = None
         | Some (File b) \<Rightarrow>
             (case fs w' (dest_of self fn) of
                None \<Rightarrow> True | Some (File c) \<Rightarrow> True | Some _ \<Rightarrow> False)
         | _ \<Rightarrow> False)"
    unfolding assms(2)[OF mem] assms(3)[OF mem] .
qed

lemma copy_loop_result:
  assumes "fs w (output_dir self) = Some (Dir ns)" "no_trailing_slash (output_dir self)"
    and "\<forall>p. \<not> denied w p"
    and "distinct (map basename filepaths)"
    and "copy_sources_ok self filepaths w"
  shows "\<exists>w'. copy_loop self filepaths w = (Inr (), w') \<and>
           (\<forall>fn \<in> set filepaths.
              case fs w fn of
                Some (Link t) \<Rightarrow> fs w' (dest_of self fn) = Some (Link t)
              | Some (File b) \<Rightarrow> fs w' (dest_of self fn) = Some (File b)
              | _ \<Rightarrow> False) \<and>
           (\<forall>q. q \<noteq> output_dir self \<longrightarrow> q \<notin> dest_of self ` set filepaths \<longrightarrow> fs w' q = fs w q)"
  using assms
proof (induction filepaths arbitrary: w ns)
  case Nil
  then show ?case by simp
next
  case (Cons fn rest)
  let ?out = "output_dir self"
  from Cons.prems(5) have ok1: "copy_sources_ok self [fn] w" and okr: "copy_sources_ok self rest w"
    by (simp_all add: copy_sources_ok_Cons[of self fn rest w])
  from ok1 have pl: "plain (basename fn)" by (simp add: copy_sources_ok_def)
  have plr: "plain (basename x)" and nout: "x \<noteq> ?out"
    and ndst: "\<And>g. plain g \<Longrightarrow> x \<noteq> path_join ?out g" if "x \<in> set rest" for x
    using okr that by (auto simp: copy_sources_ok_def)
  from copy_loop_step[OF Cons.prems(1,2,3) ok1, of rest] obtain n ns' where
    step: "copy_loop self (fn # rest) w =
           copy_loop self rest (w\<lparr>fs := (fs w)(?out \<mapsto> Dir ns', dest_of self fn \<mapsto> n)\<rparr>)"
    and n: "case fs w fn of Some (Link t) \<Rightarrow> n = Link t | Some (File b) \<Rightarrow> n = File b | _ \<Rightarrow> False"
    by blast
  let ?w1 = "w\<lparr>fs := (fs w)(?out \<mapsto> Dir ns', dest_of self fn \<mapsto> n)\<rparr>"
  have d1: "dest_of self fn \<noteq> ?out" by (rule dest_of_neq_out[OF pl])
  have out1: "fs ?w1 ?out = Some (Dir ns')" using d1 by simp
  have nd1: "\<forall>p. \<not> denied ?w1 p" using Cons.prems(3) by simp
  have dr: "distinct (map basename rest)" and nin: "basename fn \<notin> basename ` set rest"
    using Cons.prems(4) by auto
  have src_same: "fs ?w1 x = fs w x" if "x \<in> set rest" for x
    using nout[OF that] ndst[OF that pl] by (simp add: dest_of_def)
  have dst_ne: "dest_of self x \<noteq> dest_of self fn" if "x \<in> set rest" for x
  proof
    assume "dest_of self x = dest_of self fn"
    from dest_of_inj[OF plr[OF that] pl this] have "basename fn = basename x" by simp
    with that have "basename fn \<in> basename ` set rest" by (simp only: image_eqI)
    with nin show False by contradiction
  qed
  have dst_same: "fs ?w1 (dest_of self x) = fs w (dest_of self x)" if "x \<in> set rest" for x
    using dst_ne[OF that] dest_of_neq_out[OF plr[OF that], of self] by simp
  have okr1: "copy_sources_ok self rest ?w1"
    by (rule copy_sources_ok_frame[OF okr src_same dst_same])
  from Cons.IH[OF out1 Cons.prems(2) nd1 dr okr1] obtain w' where
    r: "copy_loop self rest ?w1 = (Inr (), w')"
    and res: "\<And>x. x \<in> set rest \<Longrightarrow>
              (case fs ?w1 x of
                Some (Link t) \<Rightarrow> fs w' (dest_of self x) = Some (Link t)
              | Some (File b) \<Rightarrow> fs w' (dest_of self x) = Some (File b)
              | _ \<Rightarrow> False)"
    and fr: "\<And>q. q \<noteq> ?out \<Longrightarrow> q \<notin> dest_of self ` set rest \<Longrightarrow> fs w' q = fs ?w1 q"
    by blast
  have notin: "dest_of self fn \<notin> dest_of self ` set rest"
  proof
    assume "dest_of self fn \<in> dest_of self ` set rest"
    then obtain x where "x \<in> set rest" "dest_of self fn = dest_of self x" by blast
    with dst_ne[of x] show False by simp
  qed
  have head: "fs w' (dest_of self fn) = Some n"
    using fr[OF d1 notin] by simp
  have h: "case fs w fn of
                Some (Link t) \<Rightarrow> fs w' (dest_of self fn) = Some (Link t)
              | Some (File b) \<Rightarrow> fs w' (dest_of self fn) = Some (File b)
              | _ \<Rightarrow> False"
    using n head by (auto split: option.splits node.splits)
  have t: "case fs w x of
                Some (Link t) \<Rightarrow> fs w' (dest_of self x) = Some (Link t)
              | Some (File b) \<Rightarrow> fs w' (dest_of self x) = Some (File b)
              | _ \<Rightarrow> False" if "x \<in> set rest" for x
    using res[OF that] src_same[OF that] by simp
  have frame: "fs w' q = fs w q" if "q \<noteq> ?out" "q \<notin> dest_of self ` set (fn # rest)" for q
    using fr[of q] that by auto
  from step r h t frame show ?case by auto
qed

text \<open>
  Claim C5. Over resolved paths in good order with distinct names, into an output
  directory that is a directory and with nothing denied, the loop does not raise; every
  symbolic link among the paths is a symbolic link at its destination with the same
  target string, and every other path is a regular file whose bytes its destination
  holds, whatever regular file had that name before.
\<close>

theorem copy_loop_materializes:
  assumes "fs w (output_dir self) = Some (Dir ns)" "no_trailing_slash (output_dir self)"
    and "\<forall>p. \<not> denied w p"
    and "distinct (map basename filepaths)"
    and "copy_sources_ok self filepaths w"
  shows "\<exists>w'. copy_loop self filepaths w = (Inr (), w') \<and>
           (\<forall>fn \<in> set filepaths.
              (islink w fn \<longrightarrow>
                 islink w' (dest_of self fn) \<and>
                 (\<exists>t. os_readlink w fn = Inr t \<and> os_readlink w' (dest_of self fn) = Inr t)) \<and>
              (\<not> islink w fn \<longrightarrow>
                 (\<exists>b. fs w fn = Some (File b) \<and> fs w' (dest_of self fn) = Some (File b))))"
proof -
  from copy_loop_result[OF assms] obtain w' where
    r: "copy_loop self filepaths w = (Inr (), w')"
    and res: "\<And>fn. fn \<in> set filepaths \<Longrightarrow>
              (case fs w fn of
                Some (Link t) \<Rightarrow> fs w' (dest_of self fn) = Some (Link t)
              | Some (File b) \<Rightarrow> fs w' (dest_of self fn) = Some (File b)
              | _ \<Rightarrow> False)"
    by blast
  have "(islink w fn \<longrightarrow>
                 islink w' (dest_of self fn) \<and>
                 (\<exists>t. os_readlink w fn = Inr t \<and> os_readlink w' (dest_of self fn) = Inr t)) \<and>
              (\<not> islink w fn \<longrightarrow>
                 (\<exists>b. fs w fn = Some (File b) \<and> fs w' (dest_of self fn) = Some (File b)))"
    if "fn \<in> set filepaths" for fn
    using res[OF that]
    by (auto simp: islink_def os_readlink_def split: option.splits node.splits)
  with r show ?thesis by blast
qed

theorem copy_loop_materializes_witness:
  "fs out_world (output_dir (example_self True)) = Some (Dir [''libfoo.so.3'']) \<and>
   no_trailing_slash (output_dir (example_self True)) \<and>
   distinct (map basename [''d/libfoo.so.2'', ''d/libfoo.so.3'']) \<and>
   copy_sources_ok (example_self True) [''d/libfoo.so.2'', ''d/libfoo.so.3''] out_world \<and>
   islink out_world ''d/libfoo.so.2'' \<and>
   os_readlink out_world ''d/libfoo.so.2'' = Inr ''libfoo.so.1'' \<and>
   fs out_world ''d/libfoo.so.3'' = Some (File ''three'') \<and>
   fs out_world ''p/lib/libfoo.so.3'' = Some (File ''stale'') \<and>
   (\<exists>w'. copy_loop (example_self True) [''d/libfoo.so.2'', ''d/libfoo.so.3''] out_world = (Inr (), w') \<and>
         islink w' ''p/lib/libfoo.so.2'' \<and>
         os_readlink w' ''p/lib/libfoo.so.2'' = Inr ''libfoo.so.1'' \<and>
         fs w' ''p/lib/libfoo.so.3'' = Some (File ''three''))"
proof -
  let ?self = "example_self True"
  have o: "output_dir ?self = ''p/lib''" by (simp add: example_self_def)
  have a: "fs out_world (output_dir ?self) = Some (Dir [''libfoo.so.3''])"
    by (simp add: o out_world_def)
  have b: "no_trailing_slash (output_dir ?self)"
    by (simp add: o no_trailing_slash_def)
  have c: "\<forall>p. \<not> denied out_world p"
    by (simp add: out_world_def)
  have bn: "basename ''d/libfoo.so.2'' = ''libfoo.so.2''" "basename ''d/libfoo.so.3'' = ''libfoo.so.3''"
    by (simp_all add: basename_def)
  have d: "distinct (map basename [''d/libfoo.so.2'', ''d/libfoo.so.3''])"
    by (simp add: bn)
  have pj: "path_join ''p/lib'' g = ''p/lib/'' @ g" if "plain g" for g
    using that by (simp add: path_join_plain)
  have e: "copy_sources_ok ?self [''d/libfoo.so.2'', ''d/libfoo.so.3''] out_world"
    unfolding copy_sources_ok_def dest_of_def o
    by (auto simp: bn pj plain_def path_join_def out_world_def)
  have l: "islink out_world ''d/libfoo.so.2''"
    and rl: "os_readlink out_world ''d/libfoo.so.2'' = Inr ''libfoo.so.1''"
    and f3: "fs out_world ''d/libfoo.so.3'' = Some (File ''three'')"
    and s3: "fs out_world ''p/lib/libfoo.so.3'' = Some (File ''stale'')"
    by (simp_all add: islink_def os_readlink_def out_world_def)
  have nl: "\<not> islink out_world ''d/libfoo.so.3''"
    by (simp add: islink_def out_world_def)
  have d2: "dest_of ?self ''d/libfoo.so.2'' = ''p/lib/libfoo.so.2''"
    and d3: "dest_of ?self ''d/libfoo.so.3'' = ''p/lib/libfoo.so.3''"
    by (simp_all add: dest_of_def o bn path_join_def)
  from copy_loop_materializes[OF a b c d e] obtain w' where
    r: "copy_loop ?self [''d/libfoo.so.2'', ''d/libfoo.so.3''] out_world = (Inr (), w')"
    and res: "\<And>fn. fn \<in> set [''d/libfoo.so.2'', ''d/libfoo.so.3''] \<Longrightarrow>
              (islink out_world fn \<longrightarrow>
                 islink w' (dest_of ?self fn) \<and>
                 (\<exists>t. os_readlink out_world fn = Inr t \<and> os_readlink w' (dest_of ?self fn) = Inr t)) \<and>
              (\<not> islink out_world fn \<longrightarrow>
                 (\<exists>b. fs out_world fn = Some (File b) \<and> fs w' (dest_of ?self fn) = Some (File b)))"
    by blast
  have x2: "islink w' ''p/lib/libfoo.so.2'' \<and> os_readlink w' ''p/lib/libfoo.so.2'' = Inr ''libfoo.so.1''"
    using res[of "''d/libfoo.so.2''"] l rl by (simp add: d2)
  have x3: "fs w' ''p/lib/libfoo.so.3'' = Some (File ''three'')"
    using res[of "''d/libfoo.so.3''"] nl f3 by (simp add: d3)
  from a b d e l rl f3 s3 r x2 x3 show ?thesis by blast
qed

subsection \<open>What \<open>dump_config\<close> writes\<close>

text \<open>
  What \<open>dump_config\<close> does on an object, had one been constructed: one file, named
  \<open>cudatoolkit_config.yaml\<close>, in the output directory, holding the dump of \<open>self.config\<close>.
\<close>

lemma dump_config_writes:
  assumes "fs w (output_dir self) = Some (Dir ns)" "no_trailing_slash (output_dir self)"
    and "\<not> denied w (output_dir self)"
    and "fs w (path_join (output_dir self) ''cudatoolkit_config.yaml'') = None"
  shows "dump_config L self w =
           (Inr (), w\<lparr>fs := (fs w)
              (output_dir self \<mapsto> Dir (ns @ [''cudatoolkit_config.yaml'']),
               path_join (output_dir self) ''cudatoolkit_config.yaml''
                 \<mapsto> File (yaml_dump L (config self)))\<rparr>)"
proof -
  have pl: "plain ''cudatoolkit_config.yaml''" by (simp add: plain_def)
  show ?thesis
    unfolding dump_config_def Let_def
    by (rule write_file_new[OF assms(1,3) pl assms(2,4)])
qed

end
